theory Spec2Isabelle
  imports Main
begin

section \<open>Data model (listings/models.py)\<close>

text \<open>
  Decimal amounts with two decimal places are integers counting hundredths; a product of a
  Decimal and an int is exact, as in Python. Dates are day ordinals, so that
  \<open>(check_out - check_in).days\<close> is the difference of two ints. A field that can hold Python's
  \<open>None\<close> is an \<open>option\<close>. Primary keys are naturals.
\<close>

record listing =
  l_title :: string
  price_per_night :: int

record user =
  email :: string
  full_name :: string
  username :: string

datatype booking_status = B_pending | B_confirmed | B_cancelled | B_completed

record booking =
  b_pk :: nat
  booking_id :: string
  b_user :: nat
  b_listing :: nat
  check_in :: "int option"
  check_out :: "int option"
  number_of_guests :: nat
  total_price :: "int option"
  b_status :: booking_status
  b_updated_at :: nat

datatype payment_status = Pending | Processing | Completed | Failed | Cancelled

text \<open>A key of a JSON object read by the code: missing, present with \<open>null\<close>, or a value.\<close>

datatype 'a jfield = Absent | Null | Val 'a

text \<open>\<open>response_data['data']\<close>: the keys the views read, all strings at the gateway.\<close>

record txn_data =
  d_status :: "string jfield"
  d_reference :: "string jfield"
  d_method :: "string jfield"
  d_checkout_url :: "string jfield"
  d_tx_ref :: "string jfield"

text \<open>\<open>response_data\<close>: the JSON object the gateway answers with.\<close>

record envelope =
  e_status :: "string jfield"
  e_message :: "string jfield"
  e_data :: "txn_data jfield"

record payment =
  p_pk :: nat
  payment_id :: string
  p_booking :: nat
  transaction_id :: "string option"
  reference :: string
  amount :: "int option"
  currency :: string
  p_status :: payment_status
  payment_method :: "string option"
  chapa_reference :: "string option"
  checkout_url :: "string option"
  initiated_at :: nat
  completed_at :: "nat option"
  p_updated_at :: nat
  error_message :: "string option"
  raw_response :: "envelope option"

text \<open>Exceptions of the program, as values; \<open>RequestException\<close> is the class of the
  transport errors of \<open>requests\<close>, \<open>DataError\<close> what a save raises on a value that does not
  fit its column.\<close>

datatype exn =
    RequestException
  | IntegrityError
  | TypeError
  | KeyError
  | AttributeError
  | DoesNotExist
  | DataError

text \<open>A call to the payment gateway, as the views issue it with \<open>requests\<close>.\<close>

record init_payload =
  ip_amount :: "int option"
  ip_currency :: string
  ip_email :: string
  ip_first_name :: string
  ip_last_name :: string
  ip_phone_number :: string
  ip_tx_ref :: string
  ip_callback_url :: string
  ip_return_url :: string

datatype gateway_call = Post string init_payload | Get string

text \<open>What the gateway call gives back: a status code with the parsed body, or an exception
  raised by \<open>requests.post\<close>, \<open>requests.get\<close> or \<open>response.json()\<close>.\<close>

datatype gateway_result = Responded nat envelope | Raised exn

text \<open>A job on the task queue: the keyword arguments of the \<open>delay\<close> call.\<close>

type_synonym job = "(string \<times> string) list"

text \<open>
  The state the workflow runs on: the tables, the successive contents of the Booking and
  Payment tables after each write (every \<open>save()\<close> and \<open>create()\<close> is a statement of its own:
  no view and no model method opens a transaction), the task queue and the calls made to the
  gateway. Users and listings are never written by the workflow and a foreign key always has
  its target, so they are total functions of the key.
\<close>

record world =
  listings :: "nat \<Rightarrow> listing"
  users :: "nat \<Rightarrow> user"
  bookings :: "booking list"
  payments :: "payment list"
  commits :: "(booking list \<times> payment list) list"
  queue :: "job list"
  gateway_calls :: "gateway_call list"

section \<open>Booking (listings/models.py)\<close>

text \<open>\<open>Booking.calculate_total_price\<close>: the returned Decimal and the object afterwards.\<close>

definition calculate_total_price :: "(nat \<Rightarrow> listing) \<Rightarrow> booking \<Rightarrow> int \<times> booking" where
  "calculate_total_price ls b =
     (case (check_out b, check_in b) of
        (Some co, Some ci) \<Rightarrow>
          (let nights = co - ci in
           if nights > 0
           then (price_per_night (ls (b_listing b)) * nights,
                 b\<lparr>total_price := Some (price_per_night (ls (b_listing b)) * nights)\<rparr>)
           else (0, b))
      | _ \<Rightarrow> (0, b))"

text \<open>\<open>not self.total_price or self.total_price == 0\<close>\<close>

definition price_unset :: "booking \<Rightarrow> bool" where
  "price_unset b = (total_price b = None \<or> total_price b = Some 0)"

text \<open>
  \<open>models.Model.save\<close> for a Booking: \<open>auto_now\<close> stamps \<open>updated_at\<close>; the row with the
  object's primary key is replaced, or the object is inserted when there is none. The
  statement fails on a \<open>total_price\<close> that does not fit
  \<open>DecimalField(max_digits=10, decimal_places=2)\<close> (ten digits, two of them decimals), on a
  null \<open>check_in\<close>, \<open>check_out\<close> or \<open>total_price\<close>, and on a \<open>booking_id\<close> another row has.
\<close>

definition fits_price :: "int \<Rightarrow> bool" where
  "fits_price c = (- (10 ^ 10) < c \<and> c < 10 ^ 10)"

definition put_booking :: "booking \<Rightarrow> booking list \<Rightarrow> booking list" where
  "put_booking b bs =
     (if b_pk b \<in> set (map b_pk bs)
      then map (\<lambda>r. if b_pk r = b_pk b then b else r) bs
      else bs @ [b])"

definition booking_overflow :: "booking \<Rightarrow> bool" where
  "booking_overflow b = (case total_price b of None \<Rightarrow> False | Some c \<Rightarrow> \<not> fits_price c)"

definition booking_conflict :: "booking \<Rightarrow> booking list \<Rightarrow> bool" where
  "booking_conflict b bs =
     (check_in b = None \<or> check_out b = None \<or> total_price b = None \<or>
      list_ex (\<lambda>r. b_pk r \<noteq> b_pk b \<and> booking_id r = booking_id b) bs)"

definition write_bookings :: "booking list \<Rightarrow> world \<Rightarrow> world" where
  "write_bookings bs w = w\<lparr>bookings := bs, commits := commits w @ [(bs, payments w)]\<rparr>"

definition write_payments :: "payment list \<Rightarrow> world \<Rightarrow> world" where
  "write_payments ps w = w\<lparr>payments := ps, commits := commits w @ [(bookings w, ps)]\<rparr>"

definition super_save_booking :: "nat \<Rightarrow> booking \<Rightarrow> world \<Rightarrow> exn + booking \<times> world" where
  "super_save_booking now b w =
     (let b' = b\<lparr>b_updated_at := now\<rparr> in
      if booking_overflow b' then Inl DataError
      else if booking_conflict b' (bookings w) then Inl IntegrityError
      else Inr (b', write_bookings (put_booking b' (bookings w)) w))"

text \<open>\<open>Booking.save\<close>\<close>

definition booking_save :: "nat \<Rightarrow> booking \<Rightarrow> world \<Rightarrow> exn + booking \<times> world" where
  "booking_save now b w =
     (let b1 = (if price_unset b then snd (calculate_total_price (listings w) b) else b)
      in super_save_booking now b1 w)"

text \<open>
  \<open>BookingViewSet.perform_create\<close> (listings/views.py): \<open>serializer.save(user=request.user)\<close>
  builds the Booking from the validated data and saves it, then the view recomputes the
  price and saves again. serializers.py lies outside the verified sources; the object the
  serializer builds is the argument \<open>b\<close>, already carrying its fresh primary key.
\<close>

definition perform_create :: "nat \<Rightarrow> nat \<Rightarrow> booking \<Rightarrow> world \<Rightarrow> exn + booking \<times> world" where
  "perform_create now request_user b w =
     (case booking_save now (b\<lparr>b_user := request_user\<rparr>) w of
        Inl e \<Rightarrow> Inl e
      | Inr (b1, w1) \<Rightarrow> booking_save now (snd (calculate_total_price (listings w1) b1)) w1)"

section \<open>Payment (listings/models.py)\<close>

text \<open>Truthiness of an optional string: \<open>None\<close> and the empty string are false.\<close>

definition truthy :: "string option \<Rightarrow> bool" where
  "truthy s = (s \<noteq> None \<and> s \<noteq> Some [])"

definition put_payment :: "payment \<Rightarrow> payment list \<Rightarrow> payment list" where
  "put_payment p ps =
     (if p_pk p \<in> set (map p_pk ps)
      then map (\<lambda>r. if p_pk r = p_pk p then p else r) ps
      else ps @ [p])"

text \<open>
  The constraints of the Payment table: \<open>amount\<close> is not null; \<open>payment_id\<close>, \<open>reference\<close> and
  \<open>transaction_id\<close> are unique (nulls do not collide); \<open>booking\<close> is one-to-one.
\<close>

definition payment_conflict :: "payment \<Rightarrow> payment list \<Rightarrow> bool" where
  "payment_conflict p ps =
     (amount p = None \<or>
      list_ex (\<lambda>r. p_pk r \<noteq> p_pk p \<and>
                 (payment_id r = payment_id p \<or>
                  p_booking r = p_booking p \<or>
                  reference r = reference p \<or>
                  (transaction_id p \<noteq> None \<and> transaction_id r = transaction_id p))) ps)"

text \<open>\<open>models.Model.save\<close> for a Payment.\<close>

definition payment_save :: "nat \<Rightarrow> payment \<Rightarrow> world \<Rightarrow> exn + payment \<times> world" where
  "payment_save now p w =
     (let p' = p\<lparr>p_updated_at := now\<rparr> in
      if payment_conflict p' (payments w) then Inl IntegrityError
      else Inr (p', write_payments (put_payment p' (payments w)) w))"

text \<open>The primary key the database gives a new row.\<close>

definition next_pk :: "nat list \<Rightarrow> nat" where
  "next_pk ks = Suc (foldr max ks 0)"

text \<open>
  \<open>Payment.objects.create(booking=, reference=, amount=, currency='ETB', status='pending')\<close>;
  \<open>pid\<close> is the \<open>uuid.uuid4\<close> default of \<open>payment_id\<close>.
\<close>

definition payment_create ::
  "nat \<Rightarrow> string \<Rightarrow> booking \<Rightarrow> string \<Rightarrow> int option \<Rightarrow> world \<Rightarrow> exn + payment \<times> world" where
  "payment_create now pid b ref amt w =
     payment_save now
       \<lparr>p_pk = next_pk (map p_pk (payments w)), payment_id = pid, p_booking = b_pk b,
        transaction_id = None, reference = ref, amount = amt, currency = ''ETB'',
        p_status = Pending, payment_method = None, chapa_reference = None,
        checkout_url = None, initiated_at = now, completed_at = None, p_updated_at = now,
        error_message = None, raw_response = None\<rparr> w"

text \<open>\<open>self.booking\<close> on a Payment; \<open>booking.payment\<close> on a Booking (\<open>hasattr\<close> is false
  when there is none).\<close>

definition payment_booking :: "payment \<Rightarrow> world \<Rightarrow> exn + booking" where
  "payment_booking p w =
     (case find (\<lambda>b. b_pk b = p_booking p) (bookings w) of
        None \<Rightarrow> Inl DoesNotExist
      | Some b \<Rightarrow> Inr b)"

definition booking_payment :: "booking \<Rightarrow> world \<Rightarrow> payment option" where
  "booking_payment b w = find (\<lambda>p. p_booking p = b_pk b) (payments w)"

text \<open>
  The two methods mutate the object and write twice. An exception leaves what was written
  before it; the result is the exception if any, the object, and the state.
\<close>

definition mark_as_completed ::
  "nat \<Rightarrow> string option \<Rightarrow> payment \<Rightarrow> world \<Rightarrow> exn option \<times> payment \<times> world" where
  "mark_as_completed now tid p w =
     (let p1 = p\<lparr>p_status := Completed\<rparr>;
          p2 = (if truthy tid then p1\<lparr>transaction_id := tid\<rparr> else p1);
          p3 = p2\<lparr>completed_at := Some now\<rparr>
      in case payment_save now p3 w of
           Inl e \<Rightarrow> (Some e, p3, w)
         | Inr (p4, w1) \<Rightarrow>
             (case payment_booking p4 w1 of
                Inl e \<Rightarrow> (Some e, p4, w1)
              | Inr b \<Rightarrow>
                  (case booking_save now (b\<lparr>b_status := B_confirmed\<rparr>) w1 of
                     Inl e \<Rightarrow> (Some e, p4, w1)
                   | Inr (b', w2) \<Rightarrow> (None, p4, w2))))"

definition mark_as_failed ::
  "nat \<Rightarrow> string option \<Rightarrow> payment \<Rightarrow> world \<Rightarrow> exn option \<times> payment \<times> world" where
  "mark_as_failed now msg p w =
     (let p1 = p\<lparr>p_status := Failed\<rparr>;
          p2 = (if truthy msg then p1\<lparr>error_message := msg\<rparr> else p1)
      in case payment_save now p2 w of
           Inl e \<Rightarrow> (Some e, p2, w)
         | Inr (p3, w1) \<Rightarrow>
             (case payment_booking p3 w1 of
                Inl e \<Rightarrow> (Some e, p3, w1)
              | Inr b \<Rightarrow>
                  (case booking_save now (b\<lparr>b_status := B_cancelled\<rparr>) w1 of
                     Inl e \<Rightarrow> (Some e, p3, w1)
                   | Inr (b', w2) \<Rightarrow> (None, p3, w2))))"

section \<open>The notification task (listings/tasks.py)\<close>

text \<open>The parameters of \<open>send_booking_confirmation_email\<close> after \<open>self\<close>; none has a default.\<close>

definition task_parameters :: "string list" where
  "task_parameters =
     [''booking_id'', ''user_email'', ''user_name'', ''listing_title'', ''check_in'',
      ''check_out'']"

text \<open>
  \<open>send_booking_confirmation_email.delay(**kwargs)\<close>. Celery binds the arguments to the
  task's signature when the task is called (task typing, on unless a task or the app turns
  it off, which nothing here does) and raises \<open>TypeError\<close> when they do not fit; otherwise
  the job goes on the queue.
\<close>

definition delay :: "job \<Rightarrow> world \<Rightarrow> exn + world" where
  "delay kwargs w =
     (if list_all (\<lambda>k. k \<in> set (map fst kwargs)) task_parameters \<and>
         list_all (\<lambda>k. k \<in> set task_parameters) (map fst kwargs)
      then Inr (w\<lparr>queue := queue w @ [kwargs]\<rparr>)
      else Inl TypeError)"

text \<open>\<open>@shared_task(bind=True, max_retries=3)\<close> and the countdown of the retry.\<close>

definition max_retries :: nat where
  "max_retries = 3"

definition countdown :: "nat \<Rightarrow> nat" where
  "countdown retries = 60 * 2 ^ retries"

text \<open>
  One execution of the task: \<open>Sent\<close> when \<open>send_mail\<close> returns, otherwise what
  \<open>self.retry(exc=exc, countdown=...)\<close> raises: Celery's \<open>Retry\<close> with the countdown while
  \<open>request.retries + 1\<close> does not exceed \<open>max_retries\<close>, the original exception after that.
\<close>

datatype attempt = Sent | Retry_in nat | Give_up

definition retry :: "nat \<Rightarrow> nat \<Rightarrow> attempt" where
  "retry cd retries = (if retries + 1 > max_retries then Give_up else Retry_in cd)"

definition send_booking_confirmation_email :: "(job \<Rightarrow> nat \<Rightarrow> bool) \<Rightarrow> job \<Rightarrow> nat \<Rightarrow> attempt" where
  "send_booking_confirmation_email send_mail kwargs retries =
     (if send_mail kwargs retries then Sent else retry (countdown retries) retries)"

text \<open>
  The worker: it runs the task, and on \<open>Retry\<close> runs it again after the countdown with
  \<open>request.retries\<close> one higher. The result is how the job ended and the countdowns waited.
\<close>

datatype task_state = SUCCESS | FAILURE

function run_task :: "(job \<Rightarrow> nat \<Rightarrow> bool) \<Rightarrow> job \<Rightarrow> nat \<Rightarrow> nat list \<Rightarrow> task_state \<times> nat list" where
  "run_task send_mail kwargs retries waits =
     (case send_booking_confirmation_email send_mail kwargs retries of
        Sent \<Rightarrow> (SUCCESS, waits)
      | Give_up \<Rightarrow> (FAILURE, waits)
      | Retry_in cd \<Rightarrow> run_task send_mail kwargs (Suc retries) (waits @ [cd]))"
  by pat_completeness auto
termination
  by (relation "measure (\<lambda>(send_mail, kwargs, retries, waits). Suc max_retries - retries)")
     (auto simp: send_booking_confirmation_email_def retry_def split: if_splits)

section \<open>The payment views (listings/views.py)\<close>

text \<open>
  What a request takes from outside the program: the settings the views read (the
  settings module of the project does not define them), the clock, the two \<open>uuid.uuid4()\<close>
  draws (\<open>payment_id\<close> as text, and the \<open>hex\<close> digits the reference is cut from), the text
  \<open>str(e)\<close> of an exception, what the gateway call gives, and \<open>PaymentSerializer(payment).data\<close>
  (serializers.py lies outside the verified sources; the representation is a function of
  the object and the tables).
\<close>

record settings =
  CHAPA_BASE_URL :: string
  CHAPA_CALLBACK_URL :: string
  CHAPA_SECRET_KEY :: string

record 'r env =
  conf :: settings
  now :: nat
  uuid_payment_id :: string
  uuid_hex :: string
  str_exn :: "exn \<Rightarrow> string"
  gateway :: gateway_result
  serializer :: "world \<Rightarrow> payment \<Rightarrow> 'r"

text \<open>\<open>d.get(k)\<close> and \<open>d.get(k, default)\<close> on a parsed JSON object.\<close>

definition jget :: "'a jfield \<Rightarrow> 'a option" where
  "jget f = (case f of Val v \<Rightarrow> Some v | _ \<Rightarrow> None)"

definition jget_default :: "'a jfield \<Rightarrow> 'a \<Rightarrow> 'a option" where
  "jget_default f d = (case f of Absent \<Rightarrow> Some d | Null \<Rightarrow> None | Val v \<Rightarrow> Some v)"

text \<open>The body and the HTTP status of a \<open>Response\<close>.\<close>

datatype 'r payload =
    No_data
  | Payment_repr 'r
  | Initiated string string "string option" "int option" string
  | Gateway_body envelope

datatype 'r body =
    Serializer_errors string
  | Error string
  | Status string "string option" "'r payload"

type_synonym 'r response = "nat \<times> 'r body"

text \<open>\<open>str.upper\<close> on a character, and the reference
  \<open>f"TRV-{uuid.uuid4().hex[:12].upper()}"\<close>.\<close>

definition upper_char :: "char \<Rightarrow> char" where
  "upper_char c =
     (let n = (of_char c :: nat) in if 97 \<le> n \<and> n \<le> 122 then char_of (n - 32) else c)"

definition new_reference :: "string \<Rightarrow> string" where
  "new_reference hex = ''TRV-'' @ map upper_char (take 12 hex)"

text \<open>
  The request of \<open>initiate_payment\<close>: the authenticated user and what
  \<open>PaymentInitiateSerializer\<close> makes of the body, its errors or the validated data
  (\<open>phone_number\<close> may be missing).
\<close>

record init_data =
  vd_booking_id :: string
  vd_email :: string
  vd_first_name :: string
  vd_last_name :: string
  vd_phone_number :: "string option"

record init_request =
  ir_user :: nat
  ir_validated :: "string + init_data"

definition chapa_payload :: "'r env \<Rightarrow> init_data \<Rightarrow> booking \<Rightarrow> string \<Rightarrow> init_payload" where
  "chapa_payload ev vd b ref =
     \<lparr>ip_amount = total_price b, ip_currency = ''ETB'', ip_email = vd_email vd,
      ip_first_name = vd_first_name vd, ip_last_name = vd_last_name vd,
      ip_phone_number = (case vd_phone_number vd of None \<Rightarrow> [] | Some ph \<Rightarrow> ph),
      ip_tx_ref = ref,
      ip_callback_url = CHAPA_CALLBACK_URL (conf ev) @ ''?reference='' @ ref,
      ip_return_url = CHAPA_CALLBACK_URL (conf ev) @ ''?reference='' @ ref\<rparr>"

text \<open>The body of the \<open>try\<close> of \<open>initiate_payment\<close>: an exception or the response, with the
  Payment object and the state as they are then.\<close>

definition initiate_try ::
  "'r env \<Rightarrow> string \<Rightarrow> payment \<Rightarrow> world \<Rightarrow> (exn + 'r response) \<times> payment \<times> world" where
  "initiate_try ev ref p w =
     (case gateway ev of
        Raised e \<Rightarrow> (Inl e, p, w)
      | Responded code rd \<Rightarrow>
          if code = 200 \<and> e_status rd = Val ''success''
          then (case e_data rd of
                  Absent \<Rightarrow> (Inl KeyError, p, w)
                | Null \<Rightarrow> (Inl TypeError, p, w)
                | Val d \<Rightarrow>
                    (case d_checkout_url d of
                       Absent \<Rightarrow> (Inl KeyError, p, w)
                     | cu \<Rightarrow>
                         (let p1 = p\<lparr>checkout_url := jget cu,
                                     chapa_reference := jget_default (d_tx_ref d) ref,
                                     p_status := Processing,
                                     raw_response := Some rd\<rparr>
                          in case payment_save (now ev) p1 w of
                               Inl e \<Rightarrow> (Inl e, p1, w)
                             | Inr (p2, w1) \<Rightarrow>
                                 (Inr (200, Status ''success''
                                         (Some ''Payment initiated successfully'')
                                         (Initiated (payment_id p2) (reference p2)
                                            (checkout_url p2) (amount p2) (currency p2))),
                                  p2, w1))))
          else (let em = jget_default (e_message rd) ''Payment initiation failed''
                in case mark_as_failed (now ev) em p w of
                     (Some e, p1, w1) \<Rightarrow> (Inl e, p1, w1)
                   | (None, p1, w1) \<Rightarrow>
                       (Inr (400, Status ''error'' em (Gateway_body rd)), p1, w1)))"

text \<open>
  \<open>initiate_payment\<close>. \<open>Inl\<close> is an exception that leaves the view: \<open>Payment.objects.create\<close>
  stands before the \<open>try\<close>, and the handlers call \<open>mark_as_failed\<close> themselves.
\<close>

definition initiate_payment ::
  "'r env \<Rightarrow> init_request \<Rightarrow> world \<Rightarrow> (exn + 'r response) \<times> world" where
  "initiate_payment ev rq w =
     (case ir_validated rq of
        Inl errs \<Rightarrow> (Inr (400, Serializer_errors errs), w)
      | Inr vd \<Rightarrow>
          (case find (\<lambda>b. booking_id b = vd_booking_id vd \<and> b_user b = ir_user rq)
                  (bookings w) of
             None \<Rightarrow> (Inr (404, Error ''Booking not found''), w)
           | Some b \<Rightarrow>
               if (case booking_payment b w of
                     None \<Rightarrow> False
                   | Some p0 \<Rightarrow> p_status p0 = Completed \<or> p_status p0 = Processing)
               then (Inr (400, Error ''Payment already initiated or completed''), w)
               else
                 (let ref = new_reference (uuid_hex ev) in
                  case payment_create (now ev) (uuid_payment_id ev) b ref (total_price b) w of
                    Inl e \<Rightarrow> (Inl e, w)
                  | Inr (p, w1) \<Rightarrow>
                      (let w2 = w1\<lparr>gateway_calls := gateway_calls w1 @
                                  [Post (CHAPA_BASE_URL (conf ev) @ ''/transaction/initialize'')
                                     (chapa_payload ev vd b ref)]\<rparr>
                       in case initiate_try ev ref p w2 of
                            (Inr resp, p1, w3) \<Rightarrow> (Inr resp, w3)
                          | (Inl RequestException, p1, w3) \<Rightarrow>
                              (let msg = ''Failed to connect to payment gateway: '' @
                                         str_exn ev RequestException
                               in case mark_as_failed (now ev) (Some msg) p1 w3 of
                                    (Some e', p2, w4) \<Rightarrow> (Inl e', w4)
                                  | (None, p2, w4) \<Rightarrow>
                                      (Inr (500, Status ''error'' (Some msg) No_data), w4))
                          | (Inl e, p1, w3) \<Rightarrow>
                              (case mark_as_failed (now ev)
                                      (Some (''Unexpected error: '' @ str_exn ev e)) p1 w3 of
                                 (Some e', p2, w4) \<Rightarrow> (Inl e', w4)
                               | (None, p2, w4) \<Rightarrow>
                                   (Inr (500, Status ''error''
                                           (Some ''An unexpected error occurred'') No_data),
                                    w4))))))"

text \<open>The request of \<open>verify_payment\<close>: the two query parameters, and
  \<open>query_params.get('reference') or query_params.get('tx_ref')\<close>.\<close>

record verify_request =
  q_reference :: "string option"
  q_tx_ref :: "string option"

definition requested_reference :: "verify_request \<Rightarrow> string option" where
  "requested_reference rq = (if truthy (q_reference rq) then q_reference rq else q_tx_ref rq)"

text \<open>\<open>response_data.get('data', {})\<close> when the key is missing.\<close>

definition empty_data :: txn_data where
  "empty_data = \<lparr>d_status = Absent, d_reference = Absent, d_method = Absent,
                 d_checkout_url = Absent, d_tx_ref = Absent\<rparr>"

text \<open>\<open>transaction_data\<close> and \<open>transaction_status\<close> as \<open>verify_payment\<close> reads them;
  \<open>.get\<close> on \<open>None\<close> raises.\<close>

definition transaction_data :: "envelope \<Rightarrow> exn + txn_data" where
  "transaction_data rd =
     (case e_data rd of Absent \<Rightarrow> Inr empty_data | Null \<Rightarrow> Inl AttributeError | Val d \<Rightarrow> Inr d)"

definition transaction_status :: "envelope \<Rightarrow> exn + string option" where
  "transaction_status rd =
     (case transaction_data rd of Inl e \<Rightarrow> Inl e | Inr d \<Rightarrow> Inr (jget (d_status d)))"

text \<open>The body of the \<open>try\<close> of \<open>verify_payment\<close>.\<close>

definition verify_try :: "'r env \<Rightarrow> payment \<Rightarrow> world \<Rightarrow> (exn + 'r response) \<times> world" where
  "verify_try ev p w =
     (case gateway ev of
        Raised e \<Rightarrow> (Inl e, w)
      | Responded code rd \<Rightarrow>
          if code = 200 \<and> e_status rd = Val ''success''
          then (case transaction_data rd of
                  Inl e \<Rightarrow> (Inl e, w)
                | Inr d \<Rightarrow>
                    if jget (d_status d) = Some ''success''
                    then (case mark_as_completed (now ev) (jget (d_reference d)) p w of
                            (Some e, p1, w1) \<Rightarrow> (Inl e, w1)
                          | (None, p1, w1) \<Rightarrow>
                              (case payment_save (now ev)
                                      (p1\<lparr>payment_method := jget_default (d_method d) [],
                                          raw_response := Some rd\<rparr>) w1 of
                                 Inl e \<Rightarrow> (Inl e, w1)
                               | Inr (p2, w2) \<Rightarrow>
                                   (case payment_booking p2 w2 of
                                      Inl e \<Rightarrow> (Inl e, w2)
                                    | Inr b \<Rightarrow>
                                        (case delay [(''booking_id'', booking_id b),
                                                     (''user_email'', email (users w2 (b_user b)))]
                                                w2 of
                                           Inl e \<Rightarrow> (Inl e, w2)
                                         | Inr w3 \<Rightarrow>
                                             (Inr (200, Status ''success''
                                                     (Some ''Payment verified and completed successfully'')
                                                     (Payment_repr (serializer ev w3 p2))),
                                              w3)))))
                    else if jget (d_status d) = Some ''failed''
                    then (case mark_as_failed (now ev) (Some ''Payment failed at gateway'') p w of
                            (Some e, p1, w1) \<Rightarrow> (Inl e, w1)
                          | (None, p1, w1) \<Rightarrow>
                              (case payment_save (now ev) (p1\<lparr>raw_response := Some rd\<rparr>) w1 of
                                 Inl e \<Rightarrow> (Inl e, w1)
                               | Inr (p2, w2) \<Rightarrow>
                                   (Inr (400, Status ''failed''
                                           (Some ''Payment verification failed'')
                                           (Payment_repr (serializer ev w2 p2))),
                                    w2)))
                    else (case payment_save (now ev)
                                 (p\<lparr>p_status := Processing, raw_response := Some rd\<rparr>) w of
                            Inl e \<Rightarrow> (Inl e, w)
                          | Inr (p1, w1) \<Rightarrow>
                              (Inr (200, Status ''processing''
                                      (Some ''Payment is still being processed'')
                                      (Payment_repr (serializer ev w1 p1))),
                               w1)))
          else (Inr (400, Status ''error'' (jget_default (e_message rd) ''Verification failed'')
                       No_data),
                w))"

text \<open>\<open>verify_payment\<close>\<close>

definition verify_payment :: "'r env \<Rightarrow> verify_request \<Rightarrow> world \<Rightarrow> 'r response \<times> world" where
  "verify_payment ev rq w =
     (if \<not> truthy (requested_reference rq)
      then ((400, Error ''Payment reference is required''), w)
      else
        (case find (\<lambda>p. Some (reference p) = requested_reference rq) (payments w) of
           None \<Rightarrow> ((404, Error ''Payment not found''), w)
         | Some p \<Rightarrow>
             if p_status p = Completed
             then ((200, Status ''success'' (Some ''Payment already verified and completed'')
                           (Payment_repr (serializer ev w p))), w)
             else
               (let w1 = w\<lparr>gateway_calls := gateway_calls w @
                            [Get (CHAPA_BASE_URL (conf ev) @ ''/transaction/verify/'' @
                                  reference p)]\<rparr>
                in case verify_try ev p w1 of
                     (Inr resp, w2) \<Rightarrow> (resp, w2)
                   | (Inl RequestException, w2) \<Rightarrow>
                       ((500, Status ''error''
                                (Some (''Failed to verify payment: '' @ str_exn ev RequestException))
                                No_data), w2)
                   | (Inl e, w2) \<Rightarrow>
                       ((500, Status ''error'' (Some ''An unexpected error occurred'') No_data),
                        w2))))"

section \<open>Consistency of the tables\<close>

text \<open>What the constraints declared in models.py keep true of the stored rows.\<close>

definition db_ok :: "world \<Rightarrow> bool" where
  "db_ok w =
     (distinct (map b_pk (bookings w)) \<and>
      distinct (map booking_id (bookings w)) \<and>
      list_all (\<lambda>b. total_price b \<noteq> None) (bookings w) \<and>
      distinct (map p_pk (payments w)) \<and>
      distinct (map payment_id (payments w)) \<and>
      distinct (map p_booking (payments w)) \<and>
      distinct (map reference (payments w)) \<and>
      distinct (filter (\<lambda>t. t \<noteq> None) (map transaction_id (payments w))) \<and>
      list_all (\<lambda>p. amount p \<noteq> None) (payments w) \<and>
      list_all (\<lambda>p. p_booking p \<in> set (map b_pk (bookings w))) (payments w))"

text \<open>
  What holds of the Booking rows that came in through a serializer: the dates are set and
  the price passed \<open>MinValueValidator(Decimal('0.01'))\<close> and the digit bound of its field.
\<close>

definition bookings_valid :: "world \<Rightarrow> bool" where
  "bookings_valid w =
     list_all (\<lambda>b. check_in b \<noteq> None \<and> check_out b \<noteq> None \<and>
                   (case total_price b of None \<Rightarrow> False | Some c \<Rightarrow> 0 < c \<and> fits_price c))
       (bookings w)"

section \<open>Booking creation with notification (listings/listings/views.py)\<close>

text \<open>
  \<open>BookingViewSet.create\<close> with its \<open>perform_create\<close>: the validated booking is saved for the
  requesting user, the confirmation task is queued with all six keyword arguments, and the
  view answers 201. How Python prints a primary key and a date is a parameter, and so is
  \<open>serializer.data\<close>; \<open>is_valid(raise_exception=True)\<close> on an invalid body makes the
  framework answer 400 with the errors.
\<close>

record rendering =
  str_pk :: "nat \<Rightarrow> string"
  str_date :: "int option \<Rightarrow> string"

datatype 'b create_body = Invalid string | Created string 'b

definition notification_kwargs :: "rendering \<Rightarrow> world \<Rightarrow> booking \<Rightarrow> job" where
  "notification_kwargs rn w b =
     [(''booking_id'', str_pk rn (b_pk b)),
      (''user_email'', email (users w (b_user b))),
      (''user_name'', (if full_name (users w (b_user b)) \<noteq> []
                       then full_name (users w (b_user b))
                       else username (users w (b_user b)))),
      (''listing_title'', l_title (listings w (b_listing b))),
      (''check_in'', str_date rn (check_in b)),
      (''check_out'', str_date rn (check_out b))]"

definition create_booking ::
  "rendering \<Rightarrow> (booking \<Rightarrow> 'b) \<Rightarrow> nat \<Rightarrow> nat \<Rightarrow> string + booking \<Rightarrow> world \<Rightarrow>
   (exn + nat \<times> 'b create_body) \<times> world" where
  "create_booking rn repr t request_user validated w =
     (case validated of
        Inl errs \<Rightarrow> (Inr (400, Invalid errs), w)
      | Inr b \<Rightarrow>
          (case booking_save t (b\<lparr>b_user := request_user\<rparr>) w of
             Inl e \<Rightarrow> (Inl e, w)
           | Inr (b1, w1) \<Rightarrow>
               (case delay (notification_kwargs rn w1 b1) w1 of
                  Inl e \<Rightarrow> (Inl e, w1)
                | Inr w2 \<Rightarrow>
                    (Inr (201, Created
                            ''Booking created successfully! Confirmation email will be sent shortly.''
                            (repr b1)),
                     w2))))"

text \<open>
  The worker pool takes the queued jobs and runs each to its end; the states it reaches
  are its results. A request followed by the worker: the answer to the client is the
  view's, made before any job runs.
\<close>

definition worker ::
  "(job \<Rightarrow> nat \<Rightarrow> bool) \<Rightarrow> world \<Rightarrow> (task_state \<times> nat list) list \<times> world" where
  "worker send_mail w =
     (map (\<lambda>kwargs. run_task send_mail kwargs 0 []) (queue w), w\<lparr>queue := []\<rparr>)"

definition create_then_deliver ::
  "(job \<Rightarrow> nat \<Rightarrow> bool) \<Rightarrow> rendering \<Rightarrow> (booking \<Rightarrow> 'b) \<Rightarrow> nat \<Rightarrow> nat \<Rightarrow> string + booking \<Rightarrow>
   world \<Rightarrow> (exn + nat \<times> 'b create_body) \<times> (task_state \<times> nat list) list \<times> world" where
  "create_then_deliver send_mail rn repr t request_user validated w =
     (case create_booking rn repr t request_user validated w of
        (answer, w1) \<Rightarrow> (answer, worker send_mail w1))"

section \<open>Concrete data\<close>

text \<open>
  One listing at 200.00 a night, one booking of three nights by user 7, and at most one
  Payment for it, in a given status; the requests a client sends about them and the
  environment of one request, with a given answer of the gateway.
\<close>

definition ex_listing :: listing where
  "ex_listing = \<lparr>l_title = ''Villa'', price_per_night = 20000\<rparr>"

definition ex_user :: user where
  "ex_user = \<lparr>email = ''guest@example.com'', full_name = ''A B'', username = ''guest''\<rparr>"

definition ex_booking :: booking where
  "ex_booking =
     \<lparr>b_pk = 1, booking_id = ''b-1'', b_user = 7, b_listing = 1, check_in = Some 10,
      check_out = Some 13, number_of_guests = 2, total_price = Some 60000,
      b_status = B_pending, b_updated_at = 0\<rparr>"

definition ex_payment :: "payment_status \<Rightarrow> payment" where
  "ex_payment s =
     \<lparr>p_pk = 1, payment_id = ''p-1'', p_booking = 1, transaction_id = None,
      reference = ''TRV-1'', amount = Some 60000, currency = ''ETB'', p_status = s,
      payment_method = None, chapa_reference = None, checkout_url = None, initiated_at = 0,
      completed_at = None, p_updated_at = 0, error_message = None, raw_response = None\<rparr>"

definition ex_world :: "payment list \<Rightarrow> world" where
  "ex_world ps =
     \<lparr>listings = (\<lambda>k. ex_listing), users = (\<lambda>k. ex_user), bookings = [ex_booking],
      payments = ps, commits = [], queue = [], gateway_calls = []\<rparr>"

definition ex_env :: "gateway_result \<Rightarrow> payment env" where
  "ex_env g =
     \<lparr>conf = \<lparr>CHAPA_BASE_URL = ''https://gateway'', CHAPA_CALLBACK_URL = ''https://app/verify'',
              CHAPA_SECRET_KEY = ''key''\<rparr>,
      now = 5, uuid_payment_id = ''p-2'', uuid_hex = ''0a'', str_exn = (\<lambda>e. ''exc''),
      gateway = g, serializer = (\<lambda>w p. p)\<rparr>"

definition ex_vd :: init_data where
  "ex_vd = \<lparr>vd_booking_id = ''b-1'', vd_email = ''guest@example.com'', vd_first_name = ''A'',
            vd_last_name = ''B'', vd_phone_number = None\<rparr>"

definition ex_init :: init_request where
  "ex_init = \<lparr>ir_user = 7, ir_validated = Inr ex_vd\<rparr>"

definition ex_verify :: verify_request where
  "ex_verify = \<lparr>q_reference = Some ''TRV-1'', q_tx_ref = None\<rparr>"

definition ex_data :: "string \<Rightarrow> txn_data" where
  "ex_data s = \<lparr>d_status = Val s, d_reference = Val ''CH-1'', d_method = Val ''card'',
                d_checkout_url = Absent, d_tx_ref = Val ''TRV-1''\<rparr>"

definition ex_envelope :: "string \<Rightarrow> string \<Rightarrow> envelope" where
  "ex_envelope s ts = \<lparr>e_status = Val s, e_message = Val ''msg'', e_data = Val (ex_data ts)\<rparr>"

definition ex_rendering :: rendering where
  "ex_rendering = \<lparr>str_pk = (\<lambda>k. ''1''), str_date = (\<lambda>d. ''date'')\<rparr>"

section \<open>Auxiliary facts\<close>

lemmas ex_defs = ex_listing_def ex_user_def ex_booking_def ex_payment_def ex_world_def
  ex_env_def ex_vd_def ex_init_def ex_verify_def ex_data_def ex_envelope_def

subsection \<open>Lists and keys\<close>

lemma find_in_set: "find P xs = Some x \<Longrightarrow> x \<in> set xs \<and> P x"
  by (induction xs) (auto split: if_splits)

lemma next_pk_fresh: "k \<in> set ks \<Longrightarrow> k < next_pk ks"
  unfolding next_pk_def by (induction ks) auto

lemma distinct_map_eq:
  "distinct (map f xs) \<Longrightarrow> x \<in> set xs \<Longrightarrow> y \<in> set xs \<Longrightarrow> f x = f y \<Longrightarrow> x = y"
  by (meson distinct_map inj_onD)

lemma distinct_filter_map_eq:
  "distinct (filter P (map f xs)) \<Longrightarrow> x \<in> set xs \<Longrightarrow> y \<in> set xs \<Longrightarrow> P (f x) \<Longrightarrow>
   f x = f y \<Longrightarrow> x = y"
proof -
  assume d: "distinct (filter P (map f xs))" and x: "x \<in> set xs" and y: "y \<in> set xs"
    and px: "P (f x)" and e: "f x = f y"
  have "filter P (map f xs) = map f (filter (P \<circ> f) xs)"
    by (simp add: filter_map)
  with d have "distinct (map f (filter (P \<circ> f) xs))" by simp
  moreover have "x \<in> set (filter (P \<circ> f) xs)" "y \<in> set (filter (P \<circ> f) xs)"
    using x y px e by simp_all
  ultimately show "x = y" using e by (rule distinct_map_eq)
qed

lemma find_distinct_key:
  "distinct (map f xs) \<Longrightarrow> x \<in> set xs \<Longrightarrow> find (\<lambda>r. f r = f x) xs = Some x"
  by (induction xs) (auto intro: rev_image_eqI)

lemma find_map_same:
  "(\<And>r. r \<in> set xs \<Longrightarrow> P (g r) = P r \<and> (P r \<longrightarrow> g r = r)) \<Longrightarrow>
   find P (map g xs) = find P xs"
  by (induction xs) auto

lemma find_append_miss: "\<not> P y \<Longrightarrow> find P (xs @ [y]) = find P xs"
  by (induction xs) auto

subsection \<open>Writes leave the other Payment rows alone\<close>

lemma put_payment_find_other:
  "p_pk q \<noteq> k \<Longrightarrow> find (\<lambda>r. p_pk r = k) (put_payment q ps) = find (\<lambda>r. p_pk r = k) ps"
  unfolding put_payment_def
  by (auto simp: find_append_miss intro!: find_map_same)

lemma payment_save_cases:
  "payment_save t q w = Inl IntegrityError \<or>
   payment_save t q w =
     Inr (q\<lparr>p_updated_at := t\<rparr>,
          write_payments (put_payment (q\<lparr>p_updated_at := t\<rparr>) (payments w)) w)"
  by (simp add: payment_save_def Let_def)

lemma booking_save_cases:
  "(\<exists>e. booking_save t b w = Inl e) \<or>
   (\<exists>b'. booking_save t b w = Inr (b', write_bookings (put_booking b' (bookings w)) w))"
  by (simp add: booking_save_def super_save_booking_def Let_def)

lemma payment_save_keeps:
  assumes "p_pk q \<noteq> k" "payment_save t q w = Inr (q', w')"
  shows "find (\<lambda>r. p_pk r = k) (payments w') = find (\<lambda>r. p_pk r = k) (payments w) \<and>
         p_pk q' = p_pk q"
  using assms payment_save_cases[of t q w]
  by (auto simp: write_payments_def put_payment_find_other)

lemma booking_save_payments:
  "booking_save t b w = Inr (b', w') \<Longrightarrow> payments w' = payments w"
  using booking_save_cases[of t b w] by (auto simp: write_bookings_def)

lemma save_both_keeps:
  assumes k: "p_pk q2 \<noteq> k"
    and r: "(case payment_save t q2 w of
              Inl e \<Rightarrow> (Some e, q2, w)
            | Inr (p3, w1) \<Rightarrow>
                (case payment_booking p3 w1 of
                   Inl e \<Rightarrow> (Some e, p3, w1)
                 | Inr b \<Rightarrow>
                     (case booking_save t (f b) w1 of
                        Inl e \<Rightarrow> (Some e, p3, w1)
                      | Inr (b', w2) \<Rightarrow> (None, p3, w2)))) = (e, q', w')"
  shows "find (\<lambda>r. p_pk r = k) (payments w') = find (\<lambda>r. p_pk r = k) (payments w) \<and>
         p_pk q' = p_pk q2"
proof (cases "payment_save t q2 w")
  case (Inl x)
  with r show ?thesis by auto
next
  case (Inr pr)
  obtain p3 w1 where pr: "pr = (p3, w1)" by (cases pr)
  have s: "payment_save t q2 w = Inr (p3, w1)" using Inr pr by simp
  have k1: "find (\<lambda>r. p_pk r = k) (payments w1) = find (\<lambda>r. p_pk r = k) (payments w)"
    "p_pk p3 = p_pk q2"
    using payment_save_keeps[OF k s] by simp_all
  show ?thesis
  proof (cases "payment_booking p3 w1")
    case (Inl x)
    with r s k1 show ?thesis by auto
  next
    case b: (Inr b)
    show ?thesis
    proof (cases "booking_save t (f b) w1")
      case (Inl x)
      with r s b k1 show ?thesis by auto
    next
      case (Inr br)
      obtain b' w2 where br: "br = (b', w2)" by (cases br)
      have "payments w2 = payments w1"
        using booking_save_payments[of t "f b" w1 b' w2] Inr br by simp
      with r s b k1 Inr br show ?thesis by auto
    qed
  qed
qed

lemma mark_as_failed_keeps:
  assumes "p_pk q \<noteq> k" "mark_as_failed t m q w = (e, q', w')"
  shows "find (\<lambda>r. p_pk r = k) (payments w') = find (\<lambda>r. p_pk r = k) (payments w) \<and>
         p_pk q' = p_pk q"
proof -
  define q2 where "q2 = (if truthy m then q\<lparr>p_status := Failed, error_message := m\<rparr>
                         else q\<lparr>p_status := Failed\<rparr>)"
  have k2: "p_pk q2 \<noteq> k" "p_pk q2 = p_pk q" using assms(1) by (auto simp: q2_def)
  have m: "mark_as_failed t m q w =
           (case payment_save t q2 w of
              Inl e \<Rightarrow> (Some e, q2, w)
            | Inr (p3, w1) \<Rightarrow>
                (case payment_booking p3 w1 of
                   Inl e \<Rightarrow> (Some e, p3, w1)
                 | Inr b \<Rightarrow>
                     (case booking_save t (b\<lparr>b_status := B_cancelled\<rparr>) w1 of
                        Inl e \<Rightarrow> (Some e, p3, w1)
                      | Inr (b', w2) \<Rightarrow> (None, p3, w2))))"
    by (simp only: mark_as_failed_def q2_def Let_def)
  show ?thesis
    using save_both_keeps[OF k2(1), where t=t and w=w and e=e and q'=q' and w'=w'
            and f="\<lambda>b. b\<lparr>b_status := B_cancelled\<rparr>"] assms(2) k2(2)
    unfolding m by simp
qed

lemma mark_as_completed_keeps:
  assumes "p_pk q \<noteq> k" "mark_as_completed t tid q w = (e, q', w')"
  shows "find (\<lambda>r. p_pk r = k) (payments w') = find (\<lambda>r. p_pk r = k) (payments w) \<and>
         p_pk q' = p_pk q"
proof -
  define q3 where "q3 = (if truthy tid then q\<lparr>p_status := Completed, transaction_id := tid\<rparr>
                         else q\<lparr>p_status := Completed\<rparr>)\<lparr>completed_at := Some t\<rparr>"
  have k2: "p_pk q3 \<noteq> k" "p_pk q3 = p_pk q" using assms(1) by (auto simp: q3_def)
  have m: "mark_as_completed t tid q w =
           (case payment_save t q3 w of
              Inl e \<Rightarrow> (Some e, q3, w)
            | Inr (p4, w1) \<Rightarrow>
                (case payment_booking p4 w1 of
                   Inl e \<Rightarrow> (Some e, p4, w1)
                 | Inr b \<Rightarrow>
                     (case booking_save t (b\<lparr>b_status := B_confirmed\<rparr>) w1 of
                        Inl e \<Rightarrow> (Some e, p4, w1)
                      | Inr (b', w2) \<Rightarrow> (None, p4, w2))))"
    by (simp only: mark_as_completed_def q3_def Let_def)
  show ?thesis
    using save_both_keeps[OF k2(1), where t=t and w=w and e=e and q'=q' and w'=w'
            and f="\<lambda>b. b\<lparr>b_status := B_confirmed\<rparr>"] assms(2) k2(2)
    unfolding m by simp
qed

lemma count_one:
  "distinct (map f xs) \<Longrightarrow> x \<in> set xs \<Longrightarrow> length (filter (\<lambda>q. f q = f x) xs) = 1"
proof (induction xs)
  case Nil
  then show ?case by simp
next
  case (Cons a xs)
  show ?case
  proof (cases "a = x")
    case True
    have "filter (\<lambda>q. f q = f x) xs = []"
      using Cons.prems(1) True by (auto simp: filter_empty_conv intro: rev_image_eqI)
    with True show ?thesis by simp
  next
    case False
    with Cons.prems have "x \<in> set xs" "f a \<noteq> f x" by auto
    with Cons show ?thesis by simp
  qed
qed

subsection \<open>The worker's loop, unfolded\<close>

declare run_task.simps [simp del]

lemma run_task_last:
  "\<not> retries < max_retries \<Longrightarrow>
   run_task send_mail kwargs retries ws =
     (if send_mail kwargs retries then (SUCCESS, ws) else (FAILURE, ws))"
  by (subst run_task.simps) (simp add: send_booking_confirmation_email_def retry_def)

lemma run_task_step:
  "retries < max_retries \<Longrightarrow>
   run_task send_mail kwargs retries ws =
     (if send_mail kwargs retries then (SUCCESS, ws)
      else run_task send_mail kwargs (Suc retries) (ws @ [countdown retries]))"
  by (subst run_task.simps) (simp add: send_booking_confirmation_email_def retry_def)

lemma run_task_unfolded:
  "run_task send_mail kwargs 0 [] =
     (if send_mail kwargs 0 then (SUCCESS, [])
      else if send_mail kwargs 1 then (SUCCESS, [60])
      else if send_mail kwargs 2 then (SUCCESS, [60, 120])
      else if send_mail kwargs 3 then (SUCCESS, [60, 120, 240])
      else (FAILURE, [60, 120, 240]))"
proof -
  have s0: "(0::nat) < max_retries" and s1: "Suc 0 < max_retries"
    and s2: "Suc (Suc 0) < max_retries" and s3: "\<not> Suc (Suc (Suc 0)) < max_retries"
    by (simp_all add: max_retries_def)
  have n: "(1::nat) = Suc 0" "(2::nat) = Suc (Suc 0)" "(3::nat) = Suc (Suc (Suc 0))"
    by simp_all
  show ?thesis
    unfolding n
    by (simp add: run_task_step[OF s0] run_task_step[OF s1] run_task_step[OF s2]
          run_task_last[OF s3] countdown_def)
qed

subsection \<open>Prices\<close>

lemma calculate_total_price_nights:
  "check_in b = Some ci \<Longrightarrow> check_out b = Some co \<Longrightarrow> ci < co \<Longrightarrow>
   calculate_total_price ls b =
     (price_per_night (ls (b_listing b)) * (co - ci),
      b\<lparr>total_price := Some (price_per_night (ls (b_listing b)) * (co - ci))\<rparr>)"
  by (simp add: calculate_total_price_def Let_def)

lemma put_booking_same_ids:
  "r \<in> set (put_booking b bs) \<Longrightarrow> r = b \<or> (r \<in> set bs \<and> b_pk r \<noteq> b_pk b)"
proof (cases "b_pk b \<in> set (map b_pk bs)")
  case True
  assume "r \<in> set (put_booking b bs)"
  with True show ?thesis by (auto simp: put_booking_def split: if_splits)
next
  case False
  assume "r \<in> set (put_booking b bs)"
  with False have "r = b \<or> r \<in> set bs" by (auto simp: put_booking_def)
  moreover have "r \<in> set bs \<Longrightarrow> b_pk r \<noteq> b_pk b"
  proof
    assume "r \<in> set bs" "b_pk r = b_pk b"
    then have "b_pk b \<in> b_pk ` set bs" by (metis imageI)
    with False show False by simp
  qed
  ultimately show ?thesis by blast
qed

subsection \<open>The views, step by step\<close>

lemmas run_defs = verify_payment_def verify_try_def initiate_payment_def initiate_try_def
  mark_as_completed_def mark_as_failed_def payment_save_def payment_conflict_def
  payment_create_def put_payment_def write_payments_def payment_booking_def
  booking_payment_def booking_save_def super_save_booking_def booking_conflict_def
  booking_overflow_def fits_price_def
  put_booking_def write_bookings_def price_unset_def calculate_total_price_def
  truthy_def requested_reference_def transaction_data_def jget_def jget_default_def
  delay_def task_parameters_def next_pk_def new_reference_def chapa_payload_def Let_def

lemma delay_two_kwargs: "delay [(''booking_id'', x), (''user_email'', y)] w = Inl TypeError"
  by (simp add: delay_def task_parameters_def)

lemma delay_payments: "delay kw w = Inr w' \<Longrightarrow> payments w' = payments w"
  by (auto simp: delay_def split: if_splits)

lemma verify_try_keeps:
  assumes k: "p_pk q \<noteq> k"
  shows "find (\<lambda>r. p_pk r = k) (payments (snd (verify_try ev q w))) =
         find (\<lambda>r. p_pk r = k) (payments w)"
proof (cases "gateway ev")
  case (Raised e)
  then show ?thesis by (simp add: verify_try_def)
next
  case (Responded code rd)
  show ?thesis
  proof (cases "code = 200 \<and> e_status rd = Val ''success''")
    case False
    with Responded show ?thesis by (auto simp: verify_try_def)
  next
    case True
    show ?thesis
    proof (cases "transaction_data rd")
      case (Inl e)
      with Responded True show ?thesis by (simp add: verify_try_def)
    next
      case (Inr d)
      consider (s) "jget (d_status d) = Some ''success''"
        | (f) "jget (d_status d) \<noteq> Some ''success''" "jget (d_status d) = Some ''failed''"
        | (o) "jget (d_status d) \<noteq> Some ''success''" "jget (d_status d) \<noteq> Some ''failed''"
        by blast
      then show ?thesis
      proof cases
        case s
        obtain e p1 w1 where m: "mark_as_completed (now ev) (jget (d_reference d)) q w = (e, p1, w1)"
          by (metis prod_cases3)
        note k1 = mark_as_completed_keeps[OF k m]
        have k1': "p_pk (p1\<lparr>payment_method := jget_default (d_method d) [],
                            raw_response := Some rd\<rparr>) \<noteq> k"
          using k1 k by simp
        show ?thesis
        proof (cases e)
          case (Some x)
          with Responded True Inr s m k1 show ?thesis by (simp add: verify_try_def)
        next
          case None
          show ?thesis
          proof (cases "payment_save (now ev)
                          (p1\<lparr>payment_method := jget_default (d_method d) [],
                              raw_response := Some rd\<rparr>) w1")
            case (Inl x)
            with Responded True Inr s m k1 None show ?thesis by (simp add: verify_try_def)
          next
            case sv: (Inr pr)
            obtain p2 w2 where pr: "pr = (p2, w2)" by (cases pr)
            have k2: "find (\<lambda>r. p_pk r = k) (payments w2) = find (\<lambda>r. p_pk r = k) (payments w1)"
              using payment_save_keeps[OF k1'] sv pr by blast
            show ?thesis
              using Responded True Inr s m k1 None sv pr k2
              by (auto simp: verify_try_def split: sum.splits dest: delay_payments)
          qed
        qed
      next
        case f
        obtain e p1 w1 where m: "mark_as_failed (now ev) (Some ''Payment failed at gateway'') q w = (e, p1, w1)"
          by (metis prod_cases3)
        note k1 = mark_as_failed_keeps[OF k m]
        have k1': "p_pk (p1\<lparr>raw_response := Some rd\<rparr>) \<noteq> k"
          using k1 k by simp
        show ?thesis
        proof (cases e)
          case (Some x)
          with Responded True Inr f m k1 show ?thesis by (simp add: verify_try_def)
        next
          case None
          show ?thesis
          proof (cases "payment_save (now ev) (p1\<lparr>raw_response := Some rd\<rparr>) w1")
            case (Inl x)
            with Responded True Inr f m k1 None show ?thesis by (simp add: verify_try_def)
          next
            case sv: (Inr pr)
            obtain p2 w2 where pr: "pr = (p2, w2)" by (cases pr)
            have k2: "find (\<lambda>r. p_pk r = k) (payments w2) = find (\<lambda>r. p_pk r = k) (payments w1)"
              using payment_save_keeps[OF k1'] sv pr by blast
            show ?thesis
              using Responded True Inr f m k1 None sv pr k2
              by (simp add: verify_try_def)
          qed
        qed
      next
        case o
        have k0: "p_pk (q\<lparr>p_status := Processing, raw_response := Some rd\<rparr>) \<noteq> k"
          using k by simp
        show ?thesis
        proof (cases "payment_save (now ev) (q\<lparr>p_status := Processing, raw_response := Some rd\<rparr>) w")
          case (Inl x)
          with Responded True Inr o show ?thesis by (simp add: verify_try_def)
        next
          case sv: (Inr pr)
          obtain p2 w2 where pr: "pr = (p2, w2)" by (cases pr)
          have k2: "find (\<lambda>r. p_pk r = k) (payments w2) = find (\<lambda>r. p_pk r = k) (payments w)"
            using payment_save_keeps[OF k0] sv pr by blast
          show ?thesis
            using Responded True Inr o sv pr k2 by (simp add: verify_try_def)
        qed
      qed
    qed
  qed
qed

lemma initiate_try_keeps:
  assumes k: "p_pk q \<noteq> k" and r: "initiate_try ev ref q w = (res, q', w')"
  shows "find (\<lambda>r. p_pk r = k) (payments w') = find (\<lambda>r. p_pk r = k) (payments w) \<and>
         p_pk q' = p_pk q"
proof (cases "gateway ev")
  case (Raised e)
  with r show ?thesis by (simp add: initiate_try_def)
next
  case (Responded code rd)
  show ?thesis
  proof (cases "code = 200 \<and> e_status rd = Val ''success''")
    case False
    obtain e p1 w1 where m: "mark_as_failed (now ev)
        (jget_default (e_message rd) ''Payment initiation failed'') q w = (e, p1, w1)"
      by (metis prod_cases3)
    note k1 = mark_as_failed_keeps[OF k m]
    from False have c: "(code = 200 \<and> e_status rd = Val ''success'') = False" by simp
    show ?thesis
      using r Responded m k1
      by (cases e) (auto simp: initiate_try_def c Let_def)
  next
    case True
    show ?thesis
    proof (cases "e_data rd")
      case Absent
      with r Responded True show ?thesis by (simp add: initiate_try_def)
    next
      case Null
      with r Responded True show ?thesis by (simp add: initiate_try_def)
    next
      case (Val d)
      show ?thesis
      proof (cases "d_checkout_url d = Absent")
        case True
        with r Responded \<open>code = 200 \<and> e_status rd = Val ''success''\<close> Val show ?thesis
          by (simp add: initiate_try_def)
      next
        case False
        define q1 where "q1 = q\<lparr>checkout_url := jget (d_checkout_url d),
                                  chapa_reference := jget_default (d_tx_ref d) ref,
                                  p_status := Processing, raw_response := Some rd\<rparr>"
        have k1: "p_pk q1 \<noteq> k" "p_pk q1 = p_pk q" using k by (simp_all add: q1_def)
        have e: "initiate_try ev ref q w =
                 (case payment_save (now ev) q1 w of
                    Inl e \<Rightarrow> (Inl e, q1, w)
                  | Inr (p2, w1) \<Rightarrow>
                      (Inr (200, Status ''success'' (Some ''Payment initiated successfully'')
                              (Initiated (payment_id p2) (reference p2) (checkout_url p2)
                                 (amount p2) (currency p2))), p2, w1))"
          using Responded \<open>code = 200 \<and> e_status rd = Val ''success''\<close> Val False
          by (cases "d_checkout_url d")
             (simp_all add: initiate_try_def q1_def Let_def split: sum.splits)
        show ?thesis
        proof (cases "payment_save (now ev) q1 w")
          case (Inl x)
          with r e k1 show ?thesis by simp
        next
          case sv: (Inr pr)
          obtain p2 w2 where pr: "pr = (p2, w2)" by (cases pr)
          from payment_save_keeps[OF k1(1)] sv pr
          have "find (\<lambda>r. p_pk r = k) (payments w2) = find (\<lambda>r. p_pk r = k) (payments w)"
            "p_pk p2 = p_pk q1" by blast+
          with r e k1 sv pr show ?thesis by simp
        qed
      qed
    qed
  qed
qed

lemma verify_handlers_world:
  "snd (case x of
          (Inr resp, w2) \<Rightarrow> (resp, w2)
        | (Inl RequestException, w2) \<Rightarrow> (a, w2)
        | (Inl e, w2) \<Rightarrow> (b, w2)) = snd x"
  by (auto split: prod.splits sum.splits exn.splits)

lemma verify_payment_reaches_gateway:
  assumes "truthy (requested_reference rq)"
    and "find (\<lambda>p. Some (reference p) = requested_reference rq) (payments w) = Some q"
    and "p_status q \<noteq> Completed"
  shows "snd (verify_payment ev rq w) =
         snd (verify_try ev q
                (w\<lparr>gateway_calls := gateway_calls w @
                     [Get (CHAPA_BASE_URL (conf ev) @ ''/transaction/verify/'' @ reference q)]\<rparr>))"
  using assms by (simp add: verify_payment_def Let_def verify_handlers_world)

lemma verify_payment_early:
  assumes "\<not> truthy (requested_reference rq) \<or>
           find (\<lambda>p. Some (reference p) = requested_reference rq) (payments w) = None \<or>
           (\<exists>q. find (\<lambda>p. Some (reference p) = requested_reference rq) (payments w) = Some q \<and>
                p_status q = Completed)"
  shows "snd (verify_payment ev rq w) = w"
  using assms by (auto simp: verify_payment_def)

lemma next_pk_notin: "next_pk ks \<notin> set ks"
  using next_pk_fresh[of "next_pk ks" ks] by auto

lemma payment_create_new:
  assumes "payment_create t pid b ref amt w = Inr (p0, w1)"
  shows "p_pk p0 = next_pk (map p_pk (payments w))"
    and "p_status p0 = Pending" and "p_booking p0 = b_pk b" and "error_message p0 = None"
    and "amount p0 = amt" and "amt \<noteq> None"
    and "w1 = write_payments (payments w @ [p0]) w"
    and "\<not> payment_conflict p0 (payments w)"
    and "p0 = \<lparr>p_pk = next_pk (map p_pk (payments w)), payment_id = pid, p_booking = b_pk b,
                transaction_id = None, reference = ref, amount = amt, currency = ''ETB'',
                p_status = Pending, payment_method = None, chapa_reference = None,
                checkout_url = None, initiated_at = t, completed_at = None, p_updated_at = t,
                error_message = None, raw_response = None\<rparr>"
  using assms next_pk_notin[of "map p_pk (payments w)"]
  by (auto simp: payment_create_def payment_save_def Let_def put_payment_def
        payment_conflict_def split: if_splits)

lemma mark_as_failed_keeps_snd:
  assumes "p_pk q \<noteq> k"
  shows "find (\<lambda>r. p_pk r = k) (payments (snd (snd (mark_as_failed t m q w)))) =
         find (\<lambda>r. p_pk r = k) (payments w)"
  using mark_as_failed_keeps[OF assms, of t m w "fst (mark_as_failed t m q w)"
          "fst (snd (mark_as_failed t m q w))" "snd (snd (mark_as_failed t m q w))"]
  by simp

lemma failed_handler_world:
  "snd (case mark_as_failed t m q w of
          (Some e', p2, w4) \<Rightarrow> (Inl e', w4)
        | (None, p2, w4) \<Rightarrow> (Inr r, w4)) = snd (snd (mark_as_failed t m q w))"
  by (auto split: prod.splits option.splits)

lemma initiate_payment_early:
  assumes "snd (initiate_payment ev rq w) \<noteq> w"
  obtains vd b p0 w1 where "ir_validated rq = Inr vd"
    and "find (\<lambda>b. booking_id b = vd_booking_id vd \<and> b_user b = ir_user rq) (bookings w) = Some b"
    and "\<not> (case booking_payment b w of None \<Rightarrow> False
              | Some p0 \<Rightarrow> p_status p0 = Completed \<or> p_status p0 = Processing)"
    and "payment_create (now ev) (uuid_payment_id ev) b (new_reference (uuid_hex ev))
           (total_price b) w = Inr (p0, w1)"
  using assms
  by (auto simp: initiate_payment_def Let_def split: sum.splits option.splits if_splits)

subsection \<open>Saving a stored row\<close>

lemma payment_conflict_keys:
  "p_pk q = p_pk p \<Longrightarrow> payment_id q = payment_id p \<Longrightarrow> p_booking q = p_booking p \<Longrightarrow>
   reference q = reference p \<Longrightarrow> transaction_id q = transaction_id p \<Longrightarrow>
   amount q = amount p \<Longrightarrow> payment_conflict q ps = payment_conflict p ps"
  by (simp add: payment_conflict_def)

lemma stored_payment_no_conflict:
  assumes db: "db_ok w" and p: "p \<in> set (payments w)"
  shows "\<not> payment_conflict p (payments w)"
proof -
  have a: "amount p \<noteq> None" using db p by (auto simp: db_ok_def list_all_iff)
  have "\<And>r. r \<in> set (payments w) \<Longrightarrow> p_pk r \<noteq> p_pk p \<Longrightarrow>
          payment_id r \<noteq> payment_id p \<and> p_booking r \<noteq> p_booking p \<and>
          reference r \<noteq> reference p \<and>
          \<not> (transaction_id p \<noteq> None \<and> transaction_id r = transaction_id p)"
  proof -
    fix r assume r: "r \<in> set (payments w)" "p_pk r \<noteq> p_pk p"
    then have ne: "r \<noteq> p" by auto
    have "payment_id r \<noteq> payment_id p"
      using distinct_map_eq[of payment_id "payments w" r p] db r(1) p ne by (auto simp: db_ok_def)
    moreover have "p_booking r \<noteq> p_booking p"
      using distinct_map_eq[of p_booking "payments w" r p] db r(1) p ne by (auto simp: db_ok_def)
    moreover have "reference r \<noteq> reference p"
      using distinct_map_eq[of reference "payments w" r p] db r(1) p ne by (auto simp: db_ok_def)
    moreover have "\<not> (transaction_id p \<noteq> None \<and> transaction_id r = transaction_id p)"
      using distinct_filter_map_eq[of "\<lambda>t. t \<noteq> None" transaction_id "payments w" p r]
        db r(1) p ne by (auto simp: db_ok_def)
    ultimately show "payment_id r \<noteq> payment_id p \<and> p_booking r \<noteq> p_booking p \<and>
          reference r \<noteq> reference p \<and>
          \<not> (transaction_id p \<noteq> None \<and> transaction_id r = transaction_id p)" by blast
  qed
  with a show ?thesis by (auto simp: payment_conflict_def list_ex_iff)
qed

lemma put_payment_stored:
  assumes d: "distinct (map p_pk ps)" and p: "p \<in> set ps" and k: "p_pk q = p_pk p"
  shows "put_payment q ps = map (\<lambda>r. if r = p then q else r) ps"
proof -
  have "p_pk q \<in> set (map p_pk ps)" using p k by auto
  moreover have "map (\<lambda>r. if p_pk r = p_pk q then q else r) ps =
                 map (\<lambda>r. if r = p then q else r) ps"
    using distinct_map_eq[OF d _ p] k by (intro map_cong) auto
  ultimately show ?thesis by (simp add: put_payment_def)
qed

lemma payment_save_stored:
  assumes db: "db_ok w" and p: "p \<in> set (payments w)"
    and k: "p_pk q = p_pk p" "payment_id q = payment_id p" "p_booking q = p_booking p"
      "reference q = reference p" "transaction_id q = transaction_id p" "amount q = amount p"
  shows "payment_save t q w =
         Inr (q\<lparr>p_updated_at := t\<rparr>,
              write_payments (map (\<lambda>r. if r = p then q\<lparr>p_updated_at := t\<rparr> else r) (payments w)) w)"
proof -
  have "\<not> payment_conflict (q\<lparr>p_updated_at := t\<rparr>) (payments w)"
    using stored_payment_no_conflict[OF db p]
      payment_conflict_keys[of "q\<lparr>p_updated_at := t\<rparr>" p "payments w"] k by simp
  moreover have "put_payment (q\<lparr>p_updated_at := t\<rparr>) (payments w) =
                 map (\<lambda>r. if r = p then q\<lparr>p_updated_at := t\<rparr> else r) (payments w)"
    using db p k(1) by (intro put_payment_stored) (simp_all add: db_ok_def)
  ultimately show ?thesis by (simp add: payment_save_def Let_def)
qed

lemma calculate_total_price_fields:
  "b_pk (snd (calculate_total_price ls b)) = b_pk b \<and>
   booking_id (snd (calculate_total_price ls b)) = booking_id b \<and>
   b_status (snd (calculate_total_price ls b)) = b_status b \<and>
   (total_price b \<noteq> None \<longrightarrow> total_price (snd (calculate_total_price ls b)) \<noteq> None)"
  by (auto simp: calculate_total_price_def Let_def split: option.splits)

lemma put_booking_stored:
  assumes d: "distinct (map b_pk bs)" and b: "b \<in> set bs" and k: "b_pk c = b_pk b"
  shows "put_booking c bs = map (\<lambda>r. if r = b then c else r) bs"
proof -
  have "b_pk c \<in> set (map b_pk bs)" using b k by auto
  moreover have "map (\<lambda>r. if b_pk r = b_pk c then c else r) bs =
                 map (\<lambda>r. if r = b then c else r) bs"
    using distinct_map_eq[OF d _ b] k by (intro map_cong) auto
  ultimately show ?thesis by (simp add: put_booking_def)
qed

lemma booking_save_stored:
  assumes d: "distinct (map b_pk (bookings w))" and di: "distinct (map booking_id (bookings w))"
    and b: "b \<in> set (bookings w)"
    and v: "check_in b \<noteq> None" "check_out b \<noteq> None" "total_price b = Some c" "0 < c"
      "fits_price c"
  shows "booking_save t (b\<lparr>b_status := s\<rparr>) w =
           Inr (b\<lparr>b_status := s, b_updated_at := t\<rparr>,
                write_bookings
                  (map (\<lambda>r. if r = b then b\<lparr>b_status := s, b_updated_at := t\<rparr> else r)
                     (bookings w)) w)"
proof -
  define c' where "c' = b\<lparr>b_status := s, b_updated_at := t\<rparr>"
  have f: "b_pk c' = b_pk b" "booking_id c' = booking_id b"
    by (simp_all add: c'_def)
  have "\<And>r. r \<in> set (bookings w) \<Longrightarrow> b_pk r \<noteq> b_pk c' \<Longrightarrow> booking_id r \<noteq> booking_id c'"
    using distinct_map_eq[OF di _ b] f by auto
  then have nc: "\<not> booking_conflict c' (bookings w)"
    using v by (auto simp: booking_conflict_def list_ex_iff c'_def)
  have no: "\<not> booking_overflow c'"
    using v by (simp add: booking_overflow_def c'_def)
  have nu: "\<not> price_unset (b\<lparr>b_status := s\<rparr>)"
    using v by (simp add: price_unset_def)
  have "booking_save t (b\<lparr>b_status := s\<rparr>) w =
        Inr (c', write_bookings (put_booking c' (bookings w)) w)"
    using nc no nu by (simp add: booking_save_def super_save_booking_def Let_def c'_def)
  with put_booking_stored[OF d b f(1)] show ?thesis unfolding c'_def by simp
qed

lemma put_payment_last:
  "p_pk q = p_pk p0 \<Longrightarrow> p_pk p0 \<notin> set (map p_pk ps) \<Longrightarrow> put_payment q (ps @ [p0]) = ps @ [q]"
proof -
  assume k: "p_pk q = p_pk p0" and f: "p_pk p0 \<notin> set (map p_pk ps)"
  have "map (\<lambda>r. if p_pk r = p_pk q then q else r) ps = ps"
  proof (rule map_idI)
    fix r assume "r \<in> set ps"
    then have "p_pk r \<in> set (map p_pk ps)" by simp
    with f k have "p_pk r \<noteq> p_pk q" by metis
    then show "(if p_pk r = p_pk q then q else r) = r" by simp
  qed
  then show ?thesis using k by (simp add: put_payment_def)
qed

lemma payment_conflict_append_self:
  "p_pk p' = p_pk p \<Longrightarrow> payment_conflict p (ps @ [p']) = payment_conflict p ps"
  by (simp add: payment_conflict_def)

lemma mark_as_failed_new:
  assumes d: "distinct (map b_pk (bookings w))" and di: "distinct (map booking_id (bookings w))"
    and b: "b \<in> set (bookings w)"
    and v: "check_in b \<noteq> None" "check_out b \<noteq> None" "total_price b = Some c" "0 < c"
      "fits_price c"
    and ps: "payments w = ps @ [p0]" and fresh: "p_pk p0 \<notin> set (map p_pk ps)"
    and nc: "\<not> payment_conflict p0 ps" and pb: "p_booking p0 = b_pk b"
    and p: "p = (if truthy m then p0\<lparr>p_status := Failed, error_message := m\<rparr>
                 else p0\<lparr>p_status := Failed\<rparr>)\<lparr>p_updated_at := t\<rparr>"
  shows "mark_as_failed t m p0 w =
           (None, p,
            write_bookings
              (map (\<lambda>r. if r = b then b\<lparr>b_status := B_cancelled, b_updated_at := t\<rparr> else r)
                 (bookings w))
              (write_payments (ps @ [p]) w))"
proof -
  define q2 where "q2 = (if truthy m then p0\<lparr>p_status := Failed, error_message := m\<rparr>
                         else p0\<lparr>p_status := Failed\<rparr>)"
  have pq: "p = q2\<lparr>p_updated_at := t\<rparr>" by (simp add: p q2_def)
  have keys: "p_pk p = p_pk p0" "payment_id p = payment_id p0" "p_booking p = p_booking p0"
    "reference p = reference p0" "transaction_id p = transaction_id p0" "amount p = amount p0"
    by (simp_all add: pq q2_def)
  have "\<not> payment_conflict p (payments w)"
    using payment_conflict_keys[OF keys, of "ps @ [p0]"]
      payment_conflict_append_self[of p0 p0 ps] nc ps by simp
  moreover have "put_payment p (payments w) = ps @ [p]"
    using put_payment_last[OF keys(1) fresh] ps by simp
  ultimately have sv: "payment_save t q2 w = Inr (p, write_payments (ps @ [p]) w)"
    by (simp add: payment_save_def Let_def pq)
  define w1 where "w1 = write_payments (ps @ [p]) w"
  have bw: "bookings w1 = bookings w" by (simp add: w1_def write_payments_def)
  have pbk: "payment_booking p w1 = Inr b"
    using find_distinct_key[OF d b] keys(3) pb by (simp add: payment_booking_def bw)
  have bs: "booking_save t (b\<lparr>b_status := B_cancelled\<rparr>) w1 =
              Inr (b\<lparr>b_status := B_cancelled, b_updated_at := t\<rparr>,
                   write_bookings
                     (map (\<lambda>r. if r = b then b\<lparr>b_status := B_cancelled, b_updated_at := t\<rparr> else r)
                        (bookings w1)) w1)"
    using booking_save_stored[of w1 b c t B_cancelled] d di b v bw by simp
  show ?thesis
    using sv pbk bs bw
    by (simp add: mark_as_failed_def Let_def q2_def[symmetric] w1_def[symmetric])
qed

subsection \<open>The task queue\<close>

lemma delay_six_kwargs:
  "delay [(''booking_id'', a), (''user_email'', b), (''user_name'', c), (''listing_title'', d),
          (''check_in'', e), (''check_out'', f)] w =
   Inr (w\<lparr>queue := queue w @
          [[(''booking_id'', a), (''user_email'', b), (''user_name'', c), (''listing_title'', d),
            (''check_in'', e), (''check_out'', f)]]\<rparr>)"
  by (simp add: delay_def task_parameters_def)

lemma payment_save_queue: "payment_save t q w = Inr (q', w') \<Longrightarrow> queue w' = queue w"
  by (auto simp: payment_save_def Let_def write_payments_def split: if_splits)

lemma booking_save_queue: "booking_save t b w = Inr (b', w') \<Longrightarrow> queue w' = queue w"
  by (auto simp: booking_save_def super_save_booking_def Let_def write_bookings_def
        split: if_splits)

lemma mark_as_failed_queue: "mark_as_failed t m q w = (e, q', w') \<Longrightarrow> queue w' = queue w"
  by (auto simp: mark_as_failed_def Let_def split: sum.splits prod.splits if_splits)
     (metis payment_save_queue booking_save_queue)+

lemma mark_as_completed_queue:
  "mark_as_completed t tid q w = (e, q', w') \<Longrightarrow> queue w' = queue w"
  by (auto simp: mark_as_completed_def Let_def split: sum.splits prod.splits if_splits)
     (metis payment_save_queue booking_save_queue)+

lemma verify_try_queue: "queue (snd (verify_try ev q w)) = queue w"
proof (cases "gateway ev")
  case (Raised e)
  then show ?thesis by (simp add: verify_try_def)
next
  case (Responded code rd)
  obtain e1 p1 w1 where m1: "mark_as_completed (now ev)
      (case transaction_data rd of Inl x \<Rightarrow> None | Inr d \<Rightarrow> jget (d_reference d)) q w = (e1, p1, w1)"
    by (metis prod_cases3)
  obtain e2 p2 w2 where m2: "mark_as_failed (now ev) (Some ''Payment failed at gateway'') q w =
      (e2, p2, w2)"
    by (metis prod_cases3)
  have q1: "queue w1 = queue w" using mark_as_completed_queue[OF m1] .
  have q2: "queue w2 = queue w" using mark_as_failed_queue[OF m2] .
  have s: "\<And>x y u v. payment_save (now ev) x y = Inr (u, v) \<Longrightarrow> queue v = queue y"
    by (rule payment_save_queue)
  show ?thesis
    using Responded m1 m2 q1 q2
    by (auto simp: verify_try_def delay_two_kwargs split: sum.splits option.splits dest!: s)
qed

lemma verify_payment_queue: "queue (snd (verify_payment ev rq w)) = queue w"
  by (auto simp: verify_payment_def Let_def verify_handlers_world verify_try_queue
        split: option.splits)

subsection \<open>Creating a booking through the view\<close>

lemma fresh_after_put:
  assumes fresh: "\<not> list_ex (\<lambda>r. b_pk r \<noteq> b_pk b \<and> booking_id r = booking_id b) bs"
    and k: "b_pk c = b_pk b" "booking_id c = booking_id b"
  shows "\<not> list_ex (\<lambda>r. b_pk r \<noteq> b_pk b \<and> booking_id r = booking_id b) (put_booking c bs)"
proof -
  have "\<And>r. r \<in> set (put_booking c bs) \<Longrightarrow> b_pk r \<noteq> b_pk b \<Longrightarrow> booking_id r \<noteq> booking_id b"
  proof -
    fix r assume r: "r \<in> set (put_booking c bs)" "b_pk r \<noteq> b_pk b"
    then have "r = c \<or> (r \<in> set bs \<and> b_pk r \<noteq> b_pk c)" using put_booking_same_ids by blast
    moreover have "r \<noteq> c" using r(2) k by auto
    ultimately have "r \<in> set bs" by blast
    then show "booking_id r \<noteq> booking_id b" using fresh r(2) by (auto simp: list_ex_iff)
  qed
  then show ?thesis by (auto simp: list_ex_iff)
qed

lemma booking_save_priced:
  assumes fresh: "\<not> list_ex (\<lambda>r. b_pk r \<noteq> b_pk b \<and> booking_id r = booking_id b) (bookings w)"
    and k: "b_pk c = b_pk b" "booking_id c = booking_id b"
    and dates: "check_in c = Some ci" "check_out c = Some co" "ci < co"
    and ft: "fits_price (price_per_night (listings w (b_listing c)) * (co - ci))"
      "case total_price c of None \<Rightarrow> True | Some x \<Rightarrow> fits_price x"
  shows "\<exists>c'. booking_save t c w = Inr (c', write_bookings (put_booking c' (bookings w)) w) \<and>
              b_pk c' = b_pk b \<and> booking_id c' = booking_id b \<and>
              check_in c' = Some ci \<and> check_out c' = Some co \<and> b_listing c' = b_listing c \<and>
              total_price c' =
                (if price_unset c then Some (price_per_night (listings w (b_listing c)) * (co - ci))
                 else total_price c)"
proof -
  define c1 where "c1 = (if price_unset c then snd (calculate_total_price (listings w) c) else c)"
  have f: "b_pk c1 = b_pk b" "booking_id c1 = booking_id b" "check_in c1 = Some ci"
    "check_out c1 = Some co" "b_listing c1 = b_listing c"
    "total_price c1 =
       (if price_unset c then Some (price_per_night (listings w (b_listing c)) * (co - ci))
        else total_price c)"
    using k dates by (auto simp: c1_def calculate_total_price_nights[OF dates])
  have nn: "total_price c1 \<noteq> None" using f(6) by (auto simp: price_unset_def)
  have "\<not> booking_overflow (c1\<lparr>b_updated_at := t\<rparr>)"
    using f(6) ft by (auto simp: booking_overflow_def split: option.splits if_splits)
  moreover have "\<not> booking_conflict (c1\<lparr>b_updated_at := t\<rparr>) (bookings w)"
    using fresh f nn by (simp add: booking_conflict_def)
  ultimately have "booking_save t c w =
             Inr (c1\<lparr>b_updated_at := t\<rparr>,
                  write_bookings (put_booking (c1\<lparr>b_updated_at := t\<rparr>) (bookings w)) w)"
    by (simp add: booking_save_def super_save_booking_def Let_def c1_def)
  with f show ?thesis by simp
qed

lemma perform_create_total_price:
  assumes dates: "check_in b = Some ci" "check_out b = Some co" "ci < co"
    and fresh: "\<not> list_ex (\<lambda>r. b_pk r \<noteq> b_pk b \<and> booking_id r = booking_id b) (bookings w)"
    and ft: "fits_price (price_per_night (listings w (b_listing b)) * (co - ci))"
      "case total_price b of None \<Rightarrow> True | Some x \<Rightarrow> fits_price x"
  shows "\<exists>b' w'. perform_create t u b w = Inr (b', w') \<and> b' \<in> set (bookings w') \<and>
                 b_pk b' = b_pk b \<and>
                 total_price b' = Some (price_per_night (listings w (b_listing b)) * (co - ci))"
proof -
  let ?P = "price_per_night (listings w (b_listing b))"
  obtain b1 where s1: "booking_save t (b\<lparr>b_user := u\<rparr>) w =
                         Inr (b1, write_bookings (put_booking b1 (bookings w)) w)"
    and b1: "b_pk b1 = b_pk b" "booking_id b1 = booking_id b" "check_in b1 = Some ci"
      "check_out b1 = Some co" "b_listing b1 = b_listing b"
    using booking_save_priced[OF fresh, of "b\<lparr>b_user := u\<rparr>" ci co t] dates ft by auto
  define w1 where "w1 = write_bookings (put_booking b1 (bookings w)) w"
  have l1: "listings w1 = listings w" "bookings w1 = put_booking b1 (bookings w)"
    by (simp_all add: w1_def write_bookings_def)
  define c where "c = snd (calculate_total_price (listings w1) b1)"
  have c: "c = b1\<lparr>total_price := Some (?P * (co - ci))\<rparr>"
    using calculate_total_price_nights[OF b1(3,4) dates(3), of "listings w1"] b1(5) l1
    by (simp add: c_def)
  have fresh1: "\<not> list_ex (\<lambda>r. b_pk r \<noteq> b_pk b \<and> booking_id r = booking_id b) (bookings w1)"
    using fresh_after_put[OF fresh b1(1,2)] l1 by simp
  have ck: "b_pk c = b_pk b" "booking_id c = booking_id b" "check_in c = Some ci"
    "check_out c = Some co"
    by (simp_all add: c b1)
  have fc: "fits_price (price_per_night (listings w1 (b_listing c)) * (co - ci))"
    "case total_price c of None \<Rightarrow> True | Some x \<Rightarrow> fits_price x"
    using ft(1) l1 b1(5) by (simp_all add: c)
  from booking_save_priced[OF fresh1 ck dates(3) fc, of t]
  obtain b2 where s2: "booking_save t c w1 =
                         Inr (b2, write_bookings (put_booking b2 (bookings w1)) w1)"
    and b2: "b_pk b2 = b_pk b"
      "total_price b2 =
         (if price_unset c then Some (price_per_night (listings w1 (b_listing c)) * (co - ci))
          else total_price c)"
    by blast
  have t2: "total_price b2 = Some (?P * (co - ci))"
    using b2(2) b1(5) l1 by (simp add: c)
  have in2: "b2 \<in> set (bookings (write_bookings (put_booking b2 (bookings w1)) w1))"
    by (auto simp: write_bookings_def put_booking_def)
  have "perform_create t u b w = Inr (b2, write_bookings (put_booking b2 (bookings w1)) w1)"
    using s1 s2 by (simp add: perform_create_def w1_def[symmetric] c_def[symmetric])
  with in2 t2 b2(1) show ?thesis by blast
qed

section \<open>Re-initiating a payment that is in progress or completed\<close>

text \<open>
  Claim C1. A booking has a Payment whose status is \<open>processing\<close> or \<open>completed\<close>, and its
  owner calls \<open>initiate_payment\<close> for it again with a valid body. The call answers 400 with
  the error "Payment already initiated or completed" and returns the state it was given: no
  Payment row is created, no row of either table is written, the gateway is not called.
  With the one-to-one constraint holding, the booking still has exactly one Payment row.
\<close>

theorem initiate_payment_conflict:
  assumes "ir_validated rq = Inr vd"
    and "find (\<lambda>b. booking_id b = vd_booking_id vd \<and> b_user b = ir_user rq) (bookings w) = Some b"
    and "booking_payment b w = Some p0"
    and "p_status p0 = Processing \<or> p_status p0 = Completed"
  shows "initiate_payment ev rq w =
           (Inr (400, Error ''Payment already initiated or completed''), w) \<and>
         (db_ok w \<longrightarrow>
            length (filter (\<lambda>q. p_booking q = b_pk b)
                      (payments (snd (initiate_payment ev rq w)))) = 1)"
proof -
  have r: "initiate_payment ev rq w =
           (Inr (400, Error ''Payment already initiated or completed''), w)"
    using assms by (auto simp: initiate_payment_def)
  have "p0 \<in> set (payments w)" "p_booking p0 = b_pk b"
    using assms(3) find_in_set[of "\<lambda>p. p_booking p = b_pk b" "payments w" p0]
    by (auto simp: booking_payment_def)
  then have "db_ok w \<Longrightarrow> length (filter (\<lambda>q. p_booking q = b_pk b) (payments w)) = 1"
    using count_one[of p_booking "payments w" p0] by (simp add: db_ok_def)
  with r show ?thesis by simp
qed

theorem initiate_payment_conflict_witness:
  "initiate_payment (ex_env (Raised RequestException)) ex_init
     (ex_world [ex_payment Processing]) =
     (Inr (400, Error ''Payment already initiated or completed''),
      ex_world [ex_payment Processing]) \<and>
   length (filter (\<lambda>q. p_booking q = b_pk ex_booking)
             (payments (snd (initiate_payment (ex_env (Raised RequestException)) ex_init
                               (ex_world [ex_payment Processing]))))) = 1"
  using initiate_payment_conflict[of ex_init ex_vd "ex_world [ex_payment Processing]"
          ex_booking "ex_payment Processing" "ex_env (Raised RequestException)"]
  by (simp add: ex_defs db_ok_def booking_payment_def)

section \<open>Verifying a completed payment\<close>

text \<open>
  Claim C3. The reference names a Payment whose status is \<open>completed\<close>. Then
  \<open>verify_payment\<close> answers 200 with the tag \<open>success\<close> and the representation of the
  Payment as it is stored, returns the state it was given (so the gateway is not called and
  no row changes), gives the same answer whatever the gateway would have said, and gives the
  same answer when called again.
\<close>

theorem verify_completed_idempotent:
  assumes "truthy (requested_reference rq)"
    and "find (\<lambda>p. Some (reference p) = requested_reference rq) (payments w) = Some p"
    and "p_status p = Completed"
  shows "verify_payment ev rq w =
           ((200, Status ''success'' (Some ''Payment already verified and completed'')
                    (Payment_repr (serializer ev w p))), w) \<and>
         verify_payment (ev\<lparr>gateway := g\<rparr>) rq w = verify_payment ev rq w \<and>
         verify_payment ev rq (snd (verify_payment ev rq w)) = verify_payment ev rq w"
  using assms by (simp add: verify_payment_def)

theorem verify_completed_idempotent_witness:
  "verify_payment (ex_env (Raised RequestException)) ex_verify
     (ex_world [ex_payment Completed]) =
     ((200, Status ''success'' (Some ''Payment already verified and completed'')
              (Payment_repr (ex_payment Completed))),
      ex_world [ex_payment Completed]) \<and>
   verify_payment
     ((ex_env (Raised RequestException))\<lparr>gateway := Responded 200 (ex_envelope ''success'' ''failed'')\<rparr>)
     ex_verify (ex_world [ex_payment Completed]) =
     verify_payment (ex_env (Raised RequestException)) ex_verify
       (ex_world [ex_payment Completed])"
  using verify_completed_idempotent[of ex_verify "ex_world [ex_payment Completed]"
          "ex_payment Completed" "ex_env (Raised RequestException)"
          "Responded 200 (ex_envelope ''success'' ''failed'')"]
  by (simp add: ex_defs truthy_def requested_reference_def)

section \<open>Gateway errors during verification\<close>

text \<open>
  Claim C5. The gateway call of \<open>verify_payment\<close> raises a transport error (or any other
  exception), or answers with a status code other than 200 or an envelope whose status is
  not \<open>success\<close>. Then the Booking and Payment tables, the record of writes and the task
  queue are as before the call, and when the gateway was called the answer is an error,
  400 or 500.
\<close>

theorem verify_gateway_error_no_mutation:
  assumes "(\<exists>e. gateway ev = Raised e) \<or>
           (\<exists>code rd. gateway ev = Responded code rd \<and>
                       \<not> (code = 200 \<and> e_status rd = Val ''success''))"
  shows "bookings (snd (verify_payment ev rq w)) = bookings w \<and>
         payments (snd (verify_payment ev rq w)) = payments w \<and>
         commits (snd (verify_payment ev rq w)) = commits w \<and>
         queue (snd (verify_payment ev rq w)) = queue w \<and>
         (gateway_calls (snd (verify_payment ev rq w)) \<noteq> gateway_calls w \<longrightarrow>
            (\<exists>m. fst (verify_payment ev rq w) = (400, Status ''error'' m No_data) \<or>
                 fst (verify_payment ev rq w) = (500, Status ''error'' m No_data)))"
  using assms
  by (auto simp: verify_payment_def verify_try_def Let_def split: option.splits exn.splits)

theorem verify_gateway_error_no_mutation_witness:
  "payments (snd (verify_payment (ex_env (Raised RequestException)) ex_verify
                    (ex_world [ex_payment Processing]))) = [ex_payment Processing] \<and>
   bookings (snd (verify_payment (ex_env (Raised RequestException)) ex_verify
                    (ex_world [ex_payment Processing]))) = [ex_booking] \<and>
   gateway_calls (snd (verify_payment (ex_env (Raised RequestException)) ex_verify
                         (ex_world [ex_payment Processing]))) \<noteq> [] \<and>
   (\<exists>m. fst (verify_payment (ex_env (Raised RequestException)) ex_verify
                (ex_world [ex_payment Processing])) = (400, Status ''error'' m No_data) \<or>
        fst (verify_payment (ex_env (Raised RequestException)) ex_verify
                (ex_world [ex_payment Processing])) = (500, Status ''error'' m No_data))"
proof -
  have g: "gateway_calls (snd (verify_payment (ex_env (Raised RequestException)) ex_verify
                                 (ex_world [ex_payment Processing]))) \<noteq> []"
    by (simp add: ex_defs verify_payment_def verify_try_def truthy_def
          requested_reference_def)
  have h: "gateway (ex_env (Raised RequestException)) = Raised RequestException"
    by (simp add: ex_env_def)
  show ?thesis
    using g h verify_gateway_error_no_mutation[of "ex_env (Raised RequestException)"
                ex_verify "ex_world [ex_payment Processing]"]
    by (simp add: ex_world_def)
qed

section \<open>Re-initiating after a pending, failed or cancelled payment\<close>

text \<open>
  Claim C10. A booking has a Payment whose status is \<open>pending\<close>, \<open>failed\<close> or \<open>cancelled\<close>, and
  its owner calls \<open>initiate_payment\<close> for it with a valid body. The conflict check lets the
  call through, \<open>Payment.objects.create\<close> runs into the one-to-one constraint, and the
  \<open>IntegrityError\<close> leaves the view unhandled; the state is as before.
\<close>

theorem initiate_payment_integrity_error:
  assumes "ir_validated rq = Inr vd"
    and "find (\<lambda>b. booking_id b = vd_booking_id vd \<and> b_user b = ir_user rq) (bookings w) = Some b"
    and "booking_payment b w = Some p0"
    and "p_status p0 = Pending \<or> p_status p0 = Failed \<or> p_status p0 = Cancelled"
  shows "initiate_payment ev rq w = (Inl IntegrityError, w)"
proof -
  have in0: "p0 \<in> set (payments w)" "p_booking p0 = b_pk b"
    using assms(3) find_in_set[of "\<lambda>p. p_booking p = b_pk b" "payments w" p0]
    by (auto simp: booking_payment_def)
  then have "p_pk p0 \<noteq> next_pk (map p_pk (payments w))"
    using next_pk_fresh[of "p_pk p0" "map p_pk (payments w)"] by auto
  with in0 have "payment_create (now ev) (uuid_payment_id ev) b (new_reference (uuid_hex ev))
                   (total_price b) w = Inl IntegrityError"
    by (auto simp: payment_create_def payment_save_def payment_conflict_def list_ex_iff Let_def)
  with assms show ?thesis
    by (auto simp: initiate_payment_def)
qed

theorem initiate_payment_integrity_error_witness:
  "initiate_payment (ex_env (Raised RequestException)) ex_init (ex_world [ex_payment Failed]) =
     (Inl IntegrityError, ex_world [ex_payment Failed])"
  using initiate_payment_integrity_error[of ex_init ex_vd "ex_world [ex_payment Failed]"
          ex_booking "ex_payment Failed" "ex_env (Raised RequestException)"]
  by (simp add: ex_defs booking_payment_def)

section \<open>The total price of a booking\<close>

text \<open>
  Claim C7. A booking with \<open>check_out > check_in\<close> whose price is not set yet, on a listing
  with a positive nightly price, is saved, the product
  \<open>price_per_night * (check_out - check_in).days\<close> fitting the ten digits of the column. The
  save stores that product as its \<open>total_price\<close>. A later save of that booking, whatever
  dates it has been given and whatever the listing prices have become, stores the same
  \<open>total_price\<close>; \<open>calculate_total_price\<close>, called explicitly, recomputes it from the current
  dates and price. Created through \<open>BookingViewSet.perform_create\<close>, which makes that
  explicit call, the booking is stored with the product whatever \<open>total_price\<close> (of at most
  ten digits) the request carried.
\<close>

theorem total_price_computed_once:
  fixes ci co price :: int
  assumes dates: "check_in b = Some ci" "check_out b = Some co" "ci < co"
    and unset: "price_unset b"
    and price: "price = price_per_night (listings w (b_listing b))" "0 < price"
    and fits: "fits_price (price * (co - ci))"
    and fresh: "\<not> list_ex (\<lambda>r. b_pk r \<noteq> b_pk b \<and> booking_id r = booking_id b) (bookings w)"
    and b1: "b1 = b\<lparr>total_price := Some (price * (co - ci)), b_updated_at := t\<rparr>"
    and w1: "w1 = write_bookings (put_booking b1 (bookings w)) w"
  shows "booking_save t b w = Inr (b1, w1) \<and>
         b1 \<in> set (bookings w1) \<and>
         (\<exists>b2 w2. booking_save t' (b1\<lparr>check_in := Some ci', check_out := Some co'\<rparr>)
                     (w1\<lparr>listings := ls'\<rparr>) = Inr (b2, w2) \<and>
                  total_price b2 = Some (price * (co - ci)) \<and> b2 \<in> set (bookings w2)) \<and>
         (ci'' < co'' \<longrightarrow>
            total_price (snd (calculate_total_price ls'
                                (b1\<lparr>check_in := Some ci'', check_out := Some co''\<rparr>))) =
              Some (price_per_night (ls' (b_listing b)) * (co'' - ci''))) \<and>
         ((case tp of None \<Rightarrow> True | Some x \<Rightarrow> fits_price x) \<longrightarrow>
            (\<exists>b3 w3. perform_create t u (b\<lparr>total_price := tp\<rparr>) w = Inr (b3, w3) \<and>
                     total_price b3 = Some (price * (co - ci)) \<and> b3 \<in> set (bookings w3)))"
proof -
  have c1: "booking_save t b w = Inr (b1, w1)"
    using fresh unset fits dates
    by (simp add: booking_save_def calculate_total_price_nights[OF dates]
          super_save_booking_def booking_conflict_def booking_overflow_def b1 w1 price Let_def)
  have in1: "b1 \<in> set (bookings w1)"
    by (auto simp: w1 write_bookings_def put_booking_def)
  have nz: "price * (co - ci) \<noteq> 0"
    using price(2) dates(3) by simp
  define b2 where "b2 = b1\<lparr>check_in := Some ci', check_out := Some co', b_updated_at := t'\<rparr>"
  have noconf: "\<not> booking_conflict b2 (bookings (w1\<lparr>listings := ls'\<rparr>))"
  proof -
    have "\<And>r. r \<in> set (bookings w1) \<Longrightarrow> b_pk r \<noteq> b_pk b \<Longrightarrow> booking_id r \<noteq> booking_id b"
    proof -
      fix r assume r: "r \<in> set (bookings w1)" "b_pk r \<noteq> b_pk b"
      then have "r \<in> set (put_booking b1 (bookings w))"
        by (simp add: w1 write_bookings_def)
      then have "r = b1 \<or> (r \<in> set (bookings w) \<and> b_pk r \<noteq> b_pk b1)"
        by (rule put_booking_same_ids)
      moreover have "r \<noteq> b1" using r(2) by (auto simp: b1)
      ultimately have "r \<in> set (bookings w)" by blast
      then show "booking_id r \<noteq> booking_id b"
        using fresh r(2) by (auto simp: list_ex_iff)
    qed
    then show ?thesis
      by (auto simp: booking_conflict_def list_ex_iff b2_def b1)
  qed
  have noover: "\<not> booking_overflow b2"
    using fits by (simp add: booking_overflow_def b2_def b1)
  have c2: "booking_save t' (b1\<lparr>check_in := Some ci', check_out := Some co'\<rparr>) (w1\<lparr>listings := ls'\<rparr>) =
            Inr (b2, write_bookings (put_booking b2 (bookings w1)) (w1\<lparr>listings := ls'\<rparr>))"
    using noconf noover nz
    by (simp add: booking_save_def super_save_booking_def price_unset_def b1 b2_def Let_def)
  have in2: "b2 \<in> set (bookings (write_bookings (put_booking b2 (bookings w1)) (w1\<lparr>listings := ls'\<rparr>)))"
    by (auto simp: write_bookings_def put_booking_def)
  have t2: "total_price b2 = Some (price * (co - ci))"
    by (simp add: b2_def b1)
  have c3: "ci'' < co'' \<longrightarrow>
            total_price (snd (calculate_total_price ls'
                                (b1\<lparr>check_in := Some ci'', check_out := Some co''\<rparr>))) =
              Some (price_per_night (ls' (b_listing b)) * (co'' - ci''))"
    by (simp add: calculate_total_price_def b1 Let_def)
  have c4: "(case tp of None \<Rightarrow> True | Some x \<Rightarrow> fits_price x) \<longrightarrow>
            (\<exists>b3 w3. perform_create t u (b\<lparr>total_price := tp\<rparr>) w = Inr (b3, w3) \<and>
                     total_price b3 = Some (price * (co - ci)) \<and> b3 \<in> set (bookings w3))"
    using perform_create_total_price[of "b\<lparr>total_price := tp\<rparr>" ci co w t u] dates fresh
      price(1) fits
    by auto
  from c1 in1 c2 in2 t2 c3 c4 show ?thesis by blast
qed

theorem total_price_computed_once_witness:
  "\<exists>b1 w1. booking_save 5 (ex_booking\<lparr>total_price := None\<rparr>) (ex_world []) = Inr (b1, w1) \<and>
           total_price b1 = Some 60000 \<and>
           (\<exists>b2 w2. booking_save 6 (b1\<lparr>check_in := Some 10, check_out := Some 20\<rparr>)
                       (w1\<lparr>listings := (\<lambda>k. ex_listing\<lparr>price_per_night := 30000\<rparr>)\<rparr>) =
                       Inr (b2, w2) \<and>
                     total_price b2 = Some 60000) \<and>
           (\<exists>b3 w3. perform_create 5 7 (ex_booking\<lparr>total_price := Some 1\<rparr>) (ex_world []) =
                       Inr (b3, w3) \<and>
                     total_price b3 = Some 60000)"
proof -
  let ?b = "ex_booking\<lparr>total_price := None\<rparr>"
  let ?b1 = "?b\<lparr>total_price := Some (20000 * (13 - 10)), b_updated_at := 5\<rparr>"
  let ?w1 = "write_bookings (put_booking ?b1 (bookings (ex_world []))) (ex_world [])"
  have "booking_save 5 ?b (ex_world []) = Inr (?b1, ?w1) \<and>
        ?b1 \<in> set (bookings ?w1) \<and>
        (\<exists>b2 w2. booking_save 6 (?b1\<lparr>check_in := Some 10, check_out := Some 20\<rparr>)
                    (?w1\<lparr>listings := (\<lambda>k. ex_listing\<lparr>price_per_night := 30000\<rparr>)\<rparr>) =
                    Inr (b2, w2) \<and>
                  total_price b2 = Some (20000 * (13 - 10)) \<and> b2 \<in> set (bookings w2)) \<and>
        ((10::int) < 20 \<longrightarrow>
           total_price (snd (calculate_total_price (\<lambda>k. ex_listing\<lparr>price_per_night := 30000\<rparr>)
                               (?b1\<lparr>check_in := Some 10, check_out := Some 20\<rparr>))) =
             Some (price_per_night ((\<lambda>k. ex_listing\<lparr>price_per_night := 30000\<rparr>) (b_listing ?b)) *
                   (20 - 10))) \<and>
        ((case Some (1::int) of None \<Rightarrow> True | Some x \<Rightarrow> fits_price x) \<longrightarrow>
           (\<exists>b3 w3. perform_create 5 7 (?b\<lparr>total_price := Some 1\<rparr>) (ex_world []) = Inr (b3, w3) \<and>
                    total_price b3 = Some (20000 * (13 - 10)) \<and> b3 \<in> set (bookings w3)))"
    by (rule total_price_computed_once[where ci = 10 and co = 13])
       (simp_all add: ex_defs price_unset_def fits_price_def)
  then have "booking_save 5 ?b (ex_world []) = Inr (?b1, ?w1) \<and>
        total_price ?b1 = Some 60000 \<and>
        (\<exists>b2 w2. booking_save 6 (?b1\<lparr>check_in := Some 10, check_out := Some 20\<rparr>)
                    (?w1\<lparr>listings := (\<lambda>k. ex_listing\<lparr>price_per_night := 30000\<rparr>)\<rparr>) =
                    Inr (b2, w2) \<and>
                  total_price b2 = Some 60000) \<and>
        (\<exists>b3 w3. perform_create 5 7 (ex_booking\<lparr>total_price := Some 1\<rparr>) (ex_world []) =
                    Inr (b3, w3) \<and>
                  total_price b3 = Some 60000)"
    by (simp add: fits_price_def) blast
  then show ?thesis by blast
qed

section \<open>Retries of the notification task\<close>

text \<open>
  Claim C9. A job that starts with \<open>request.retries = 0\<close> is run again after each failed
  delivery, \<open>60 * 2 ^ n\<close> seconds after the failure with \<open>request.retries = n\<close>, and no
  more once \<open>n = 3\<close>: it ends in \<open>SUCCESS\<close> at the first delivery that succeeds, having waited
  60, 120 and 240 seconds for the failures before it, and in \<open>FAILURE\<close> after the fourth
  failure. So there are at most three waits and four runs. The failure is not surfaced to
  the client: the view that queued the job answers as it does without the worker, 201 when
  the booking was saved and queued, and the state of the job is among the worker's
  results only.
\<close>

theorem notification_retries_bounded:
  "run_task send_mail kwargs 0 [] =
     (if send_mail kwargs 0 then (SUCCESS, [])
      else if send_mail kwargs 1 then (SUCCESS, [60])
      else if send_mail kwargs 2 then (SUCCESS, [60, 120])
      else if send_mail kwargs 3 then (SUCCESS, [60, 120, 240])
      else (FAILURE, [60, 120, 240])) \<and>
   length (snd (run_task send_mail kwargs 0 [])) \<le> max_retries \<and>
   snd (run_task send_mail kwargs 0 []) =
     map countdown [0..<length (snd (run_task send_mail kwargs 0 []))] \<and>
   fst (create_then_deliver send_mail rn repr t u v w) = fst (create_booking rn repr t u v w) \<and>
   fst (snd (create_then_deliver send_mail rn repr t u v w)) =
     map (\<lambda>k. run_task send_mail k 0 []) (queue (snd (create_booking rn repr t u v w))) \<and>
   (\<forall>b b1 w1. v = Inr b \<longrightarrow> booking_save t (b\<lparr>b_user := u\<rparr>) w = Inr (b1, w1) \<longrightarrow>
      create_then_deliver send_mail rn repr t u v w =
        (Inr (201, Created
                ''Booking created successfully! Confirmation email will be sent shortly.''
                (repr b1)),
         map (\<lambda>k. run_task send_mail k 0 []) (queue w1 @ [notification_kwargs rn w1 b1]),
         w1\<lparr>queue := []\<rparr>))"
proof -
  have a: "\<And>b b1 w1. v = Inr b \<Longrightarrow> booking_save t (b\<lparr>b_user := u\<rparr>) w = Inr (b1, w1) \<Longrightarrow>
      create_then_deliver send_mail rn repr t u v w =
        (Inr (201, Created
                ''Booking created successfully! Confirmation email will be sent shortly.''
                (repr b1)),
         map (\<lambda>k. run_task send_mail k 0 []) (queue w1 @ [notification_kwargs rn w1 b1]),
         w1\<lparr>queue := []\<rparr>)"
    by (simp add: create_then_deliver_def create_booking_def worker_def
          notification_kwargs_def delay_six_kwargs)
  have b: "fst (create_then_deliver send_mail rn repr t u v w) =
             fst (create_booking rn repr t u v w)"
    "fst (snd (create_then_deliver send_mail rn repr t u v w)) =
       map (\<lambda>k. run_task send_mail k 0 []) (queue (snd (create_booking rn repr t u v w)))"
    by (simp_all add: create_then_deliver_def worker_def split: prod.splits)
  show ?thesis
    using a b
    by (simp add: run_task_unfolded max_retries_def countdown_def upt_rec)
qed

theorem notification_retries_bounded_witness:
  "run_task (\<lambda>k n. n = 1) [] 0 [] = (SUCCESS, [60]) \<and>
   create_then_deliver (\<lambda>k n. False) ex_rendering (\<lambda>b. b_pk b) 5 7
     (Inr (ex_booking\<lparr>b_pk := 2, booking_id := ''b-2''\<rparr>)) (ex_world []) =
     (Inr (201, Created
             ''Booking created successfully! Confirmation email will be sent shortly.'' 2),
      [(FAILURE, [60, 120, 240])],
      write_bookings [ex_booking, ex_booking\<lparr>b_pk := 2, booking_id := ''b-2'', b_updated_at := 5\<rparr>]
        (ex_world []))"
proof -
  have s: "booking_save 5 (ex_booking\<lparr>b_pk := 2, booking_id := ''b-2'', b_user := 7\<rparr>) (ex_world []) =
           Inr (ex_booking\<lparr>b_pk := 2, booking_id := ''b-2'', b_updated_at := 5\<rparr>,
                write_bookings
                  [ex_booking, ex_booking\<lparr>b_pk := 2, booking_id := ''b-2'', b_updated_at := 5\<rparr>]
                  (ex_world []))"
    by (simp add: ex_defs booking_save_def super_save_booking_def booking_conflict_def
          booking_overflow_def fits_price_def price_unset_def put_booking_def Let_def)
  have f: "\<And>k. run_task (\<lambda>k n. False) k 0 [] = (FAILURE, [60, 120, 240])"
    using notification_retries_bounded[of "\<lambda>k n. False", THEN conjunct1] by simp
  have r: "run_task (\<lambda>k n. n = 1) [] 0 [] = (SUCCESS, [60])"
    using notification_retries_bounded[of "\<lambda>k n. n = 1" "[]", THEN conjunct1] by simp
  have c: "create_then_deliver (\<lambda>k n. False) ex_rendering (\<lambda>b. b_pk b) 5 7
             (Inr (ex_booking\<lparr>b_pk := 2, booking_id := ''b-2''\<rparr>)) (ex_world []) =
           (Inr (201, Created
                   ''Booking created successfully! Confirmation email will be sent shortly.'' 2),
            [(FAILURE, [60, 120, 240])],
            write_bookings
              [ex_booking, ex_booking\<lparr>b_pk := 2, booking_id := ''b-2'', b_updated_at := 5\<rparr>]
              (ex_world []))"
    using notification_retries_bounded[of "\<lambda>k n. False" "[]" ex_rendering "\<lambda>b. b_pk b" 5 7
            "Inr (ex_booking\<lparr>b_pk := 2, booking_id := ''b-2''\<rparr>)" "ex_world []"] s f
    by (simp add: write_bookings_def ex_world_def)
  from r c show ?thesis by simp
qed

section \<open>A successful verification\<close>

text \<open>
  Claim C2, at one input. The Payment of the booking is \<open>processing\<close> and the gateway
  answers the verification with status 200, envelope status \<open>success\<close> and transaction
  status \<open>success\<close>. \<open>verify_payment\<close> marks the Payment \<open>completed\<close> with the gateway's
  reference and the completion time, marks the Booking \<open>confirmed\<close>, and then calls
  \<open>send_booking_confirmation_email.delay\<close> with \<open>booking_id\<close> and \<open>user_email\<close> only, two of
  the six arguments the task requires: the call raises \<open>TypeError\<close>, the handler for
  unexpected exceptions answers 500, and no job is on the queue.
\<close>

theorem verify_success_enqueues_nothing:
  "fst (verify_payment (ex_env (Responded 200 (ex_envelope ''success'' ''success''))) ex_verify
          (ex_world [ex_payment Processing])) =
     (500, Status ''error'' (Some ''An unexpected error occurred'') No_data) \<and>
   queue (snd (verify_payment (ex_env (Responded 200 (ex_envelope ''success'' ''success'')))
                 ex_verify (ex_world [ex_payment Processing]))) = [] \<and>
   map p_status (payments (snd (verify_payment
       (ex_env (Responded 200 (ex_envelope ''success'' ''success''))) ex_verify
       (ex_world [ex_payment Processing])))) = [Completed] \<and>
   map transaction_id (payments (snd (verify_payment
       (ex_env (Responded 200 (ex_envelope ''success'' ''success''))) ex_verify
       (ex_world [ex_payment Processing])))) = [Some ''CH-1''] \<and>
   map completed_at (payments (snd (verify_payment
       (ex_env (Responded 200 (ex_envelope ''success'' ''success''))) ex_verify
       (ex_world [ex_payment Processing])))) = [Some 5] \<and>
   map b_status (bookings (snd (verify_payment
       (ex_env (Responded 200 (ex_envelope ''success'' ''success''))) ex_verify
       (ex_world [ex_payment Processing])))) = [B_confirmed]"
  by (simp add: ex_defs run_defs)

section \<open>A rejected initiation\<close>

text \<open>
  Claim C4, as amended. The tables satisfy their constraints, the stored bookings have
  their dates and a positive price within the digits of the column, \<open>initiate_payment\<close>
  reaches the gateway, and the gateway's answer parses as a JSON object, with a status code
  other than 200 or an envelope status other than \<open>success\<close>. Then the request was valid
  and named a booking of the requesting user, and for that booking: the call answers 400
  with the tag \<open>error\<close>, the gateway's message (the text "Payment initiation failed" when
  the envelope has none) and the gateway's body; the one new Payment row is the Payment
  created for this booking, now \<open>failed\<close>, with that message stored when it is a non-empty
  string; the row of this booking, and no other, is rewritten with status \<open>cancelled\<close>;
  nothing is queued and the gateway was called once. The tables were written three times,
  one row at a time: the new Payment as \<open>pending\<close>, then the Payment as \<open>failed\<close> with the
  Booking still as it was, then the Booking as \<open>cancelled\<close>.
\<close>

theorem initiate_rejected_marks_failed:
  assumes db: "db_ok w" and bv: "bookings_valid w"
    and gw: "gateway ev = Responded code rd"
    and ns: "\<not> (code = 200 \<and> e_status rd = Val ''success'')"
    and called: "gateway_calls (snd (initiate_payment ev irq w)) \<noteq> gateway_calls w"
    and em: "em = jget_default (e_message rd) ''Payment initiation failed''"
  shows "\<exists>vd b p b'.
           ir_validated irq = Inr vd \<and>
           find (\<lambda>b. booking_id b = vd_booking_id vd \<and> b_user b = ir_user irq) (bookings w) =
             Some b \<and>
           p = \<lparr>p_pk = next_pk (map p_pk (payments w)), payment_id = uuid_payment_id ev,
                p_booking = b_pk b, transaction_id = None,
                reference = new_reference (uuid_hex ev), amount = total_price b,
                currency = ''ETB'', p_status = Failed, payment_method = None,
                chapa_reference = None, checkout_url = None, initiated_at = now ev,
                completed_at = None, p_updated_at = now ev,
                error_message = (if truthy em then em else None), raw_response = None\<rparr> \<and>
           b' = b\<lparr>b_status := B_cancelled, b_updated_at := now ev\<rparr> \<and>
           fst (initiate_payment ev irq w) =
             Inr (400, Status ''error'' em (Gateway_body rd)) \<and>
           payments (snd (initiate_payment ev irq w)) = payments w @ [p] \<and>
           bookings (snd (initiate_payment ev irq w)) =
             map (\<lambda>r. if r = b then b' else r) (bookings w) \<and>
           commits (snd (initiate_payment ev irq w)) =
             commits w @
             [(bookings w, payments w @ [p\<lparr>p_status := Pending, error_message := None\<rparr>]),
              (bookings w, payments w @ [p]),
              (map (\<lambda>r. if r = b then b' else r) (bookings w), payments w @ [p])] \<and>
           queue (snd (initiate_payment ev irq w)) = queue w \<and>
           gateway_calls (snd (initiate_payment ev irq w)) =
             gateway_calls w @
             [Post (CHAPA_BASE_URL (conf ev) @ ''/transaction/initialize'')
                (chapa_payload ev vd b (new_reference (uuid_hex ev)))]"
proof -
  let ?ref = "new_reference (uuid_hex ev)"
  from called have "snd (initiate_payment ev irq w) \<noteq> w" by auto
  then obtain vd b p0 w1 where vd: "ir_validated irq = Inr vd"
    and b: "find (\<lambda>b. booking_id b = vd_booking_id vd \<and> b_user b = ir_user irq) (bookings w) = Some b"
    and nc: "\<not> (case booking_payment b w of None \<Rightarrow> False
                 | Some p0 \<Rightarrow> p_status p0 = Completed \<or> p_status p0 = Processing)"
    and cr: "payment_create (now ev) (uuid_payment_id ev) b ?ref (total_price b) w = Inr (p0, w1)"
    by (rule initiate_payment_early)
  note pc = payment_create_new[OF cr]
  have bin: "b \<in> set (bookings w)" using find_in_set[OF b] by simp
  obtain c where v: "check_in b \<noteq> None" "check_out b \<noteq> None" "total_price b = Some c" "0 < c"
    "fits_price c"
    using bv bin by (auto simp: bookings_valid_def list_all_iff split: option.splits)
  define w2 where "w2 = w1\<lparr>gateway_calls := gateway_calls w1 @
                                  [Post (CHAPA_BASE_URL (conf ev) @ ''/transaction/initialize'')
                                     (chapa_payload ev vd b ?ref)]\<rparr>"
  have w2: "payments w2 = payments w @ [p0]" "bookings w2 = bookings w"
    "commits w2 = commits w @ [(bookings w, payments w @ [p0])]" "queue w2 = queue w"
    "gateway_calls w2 = gateway_calls w @
       [Post (CHAPA_BASE_URL (conf ev) @ ''/transaction/initialize'') (chapa_payload ev vd b ?ref)]"
    by (simp_all add: w2_def pc(7) write_payments_def)
  have fresh: "p_pk p0 \<notin> set (map p_pk (payments w))"
    using pc(1) next_pk_notin[of "map p_pk (payments w)"] by simp
  have d: "distinct (map b_pk (bookings w2))" "distinct (map booking_id (bookings w2))"
    using db w2(2) by (simp_all add: db_ok_def)
  define p where "p = (if truthy em then p0\<lparr>p_status := Failed, error_message := em\<rparr>
                       else p0\<lparr>p_status := Failed\<rparr>)\<lparr>p_updated_at := now ev\<rparr>"
  define b' where "b' = b\<lparr>b_status := B_cancelled, b_updated_at := now ev\<rparr>"
  define W where "W = write_bookings (map (\<lambda>r. if r = b then b' else r) (bookings w2))
              (write_payments (payments w @ [p]) w2)"
  have bin2: "b \<in> set (bookings w2)" using bin w2(2) by simp
  have mf: "mark_as_failed (now ev) em p0 w2 = (None, p, W)"
    unfolding W_def b'_def
    by (rule mark_as_failed_new[OF d bin2 v w2(1) fresh pc(8) pc(3) p_def])
  from ns have cnd: "(code = 200 \<and> e_status rd = Val ''success'') = False" by simp
  have tr: "initiate_try ev ?ref p0 w2 =
            (Inr (400, Status ''error'' em (Gateway_body rd)), p, W)"
    using gw mf by (simp add: initiate_try_def cnd Let_def em)
  have r: "initiate_payment ev irq w = (Inr (400, Status ''error'' em (Gateway_body rd)), W)"
    using vd b nc cr tr by (simp add: initiate_payment_def Let_def w2_def)
  have W: "payments W = payments w @ [p]"
    "bookings W = map (\<lambda>r. if r = b then b' else r) (bookings w)"
    "commits W = commits w @
             [(bookings w, payments w @ [p0]),
              (bookings w, payments w @ [p]),
              (map (\<lambda>r. if r = b then b' else r) (bookings w), payments w @ [p])]"
    "queue W = queue w"
    "gateway_calls W = gateway_calls w @
       [Post (CHAPA_BASE_URL (conf ev) @ ''/transaction/initialize'') (chapa_payload ev vd b ?ref)]"
    by (simp_all add: W_def write_bookings_def write_payments_def w2)
  have pe: "p = \<lparr>p_pk = next_pk (map p_pk (payments w)), payment_id = uuid_payment_id ev,
                p_booking = b_pk b, transaction_id = None,
                reference = new_reference (uuid_hex ev), amount = total_price b,
                currency = ''ETB'', p_status = Failed, payment_method = None,
                chapa_reference = None, checkout_url = None, initiated_at = now ev,
                completed_at = None, p_updated_at = now ev,
                error_message = (if truthy em then em else None), raw_response = None\<rparr>"
    by (simp add: p_def pc(9))
  have p0e: "p0 = p\<lparr>p_status := Pending, error_message := None\<rparr>"
    by (simp add: pe pc(9))
  show ?thesis
    using vd b r W pe p0e b'_def
    by (intro exI[of _ vd] exI[of _ b] exI[of _ p] exI[of _ b']) simp
qed

theorem initiate_rejected_marks_failed_witness:
  "fst (initiate_payment (ex_env (Responded 400 (ex_envelope ''failed'' ''x''))) ex_init
          (ex_world [])) =
     Inr (400, Status ''error'' (Some ''msg'') (Gateway_body (ex_envelope ''failed'' ''x''))) \<and>
   payments (snd (initiate_payment (ex_env (Responded 400 (ex_envelope ''failed'' ''x'')))
                    ex_init (ex_world []))) =
     [(ex_payment Failed)\<lparr>payment_id := ''p-2'', reference := ''TRV-0A'', initiated_at := 5,
                          p_updated_at := 5, error_message := Some ''msg''\<rparr>] \<and>
   bookings (snd (initiate_payment (ex_env (Responded 400 (ex_envelope ''failed'' ''x'')))
                    ex_init (ex_world []))) =
     [ex_booking\<lparr>b_status := B_cancelled, b_updated_at := 5\<rparr>]"
proof -
  let ?ev = "ex_env (Responded 400 (ex_envelope ''failed'' ''x''))"
  have db: "db_ok (ex_world [])"
    by (simp add: ex_defs db_ok_def)
  have bv: "bookings_valid (ex_world [])"
    by (simp add: ex_defs bookings_valid_def fits_price_def)
  have gw: "gateway ?ev = Responded 400 (ex_envelope ''failed'' ''x'')"
    by (simp add: ex_env_def)
  have ns: "\<not> ((400::nat) = 200 \<and> e_status (ex_envelope ''failed'' ''x'') = Val ''success'')"
    by simp
  have called: "gateway_calls (snd (initiate_payment ?ev ex_init (ex_world []))) \<noteq>
                gateway_calls (ex_world [])"
    by (simp add: ex_defs run_defs)
  have em: "Some ''msg'' = jget_default (e_message (ex_envelope ''failed'' ''x''))
                             ''Payment initiation failed''"
    by (simp add: ex_envelope_def jget_default_def)
  have u: "map upper_char ''0a'' = ''0A''"
    by code_simp
  from initiate_rejected_marks_failed[OF db bv gw ns called em] u
  show ?thesis
    by (auto simp: ex_world_def ex_env_def ex_payment_def ex_booking_def ex_init_def ex_vd_def
          next_pk_def new_reference_def truthy_def split: if_splits)
qed

text \<open>
  Claim C4 as stated fails on the atomicity of the two updates: at this input the second of
  the three successive contents of the tables has the Payment \<open>failed\<close> and the Booking
  still \<open>pending\<close>.
\<close>

theorem initiate_rejected_writes:
  "map (map_prod (map b_status) (map p_status))
     (commits (snd (initiate_payment (ex_env (Responded 400 (ex_envelope ''failed'' ''x'')))
                      ex_init (ex_world [])))) =
   [([B_pending], [Pending]), ([B_pending], [Failed]), ([B_cancelled], [Failed])]"
  by (simp add: ex_defs run_defs)

section \<open>Terminal statuses\<close>

text \<open>
  Claim C6, as amended. Only \<open>completed\<close> is absorbing. With the tables satisfying their
  constraints, a stored Payment whose status is \<open>completed\<close> is the same row, field by
  field, after any call of \<open>verify_payment\<close> and after any call of \<open>initiate_payment\<close>.
\<close>

theorem completed_payment_absorbing:
  assumes db: "db_ok w" and p: "p \<in> set (payments w)" and c: "p_status p = Completed"
  shows "find (\<lambda>r. p_pk r = p_pk p) (payments (snd (verify_payment ev rq w))) = Some p \<and>
         find (\<lambda>r. p_pk r = p_pk p) (payments (snd (initiate_payment ev irq w))) = Some p"
proof
  have d: "distinct (map p_pk (payments w))" using db by (simp add: db_ok_def)
  have f0: "find (\<lambda>r. p_pk r = p_pk p) (payments w) = Some p"
    using find_distinct_key[OF d p] .
  show "find (\<lambda>r. p_pk r = p_pk p) (payments (snd (verify_payment ev rq w))) = Some p"
  proof (cases "truthy (requested_reference rq) \<and>
                (\<exists>q. find (\<lambda>p. Some (reference p) = requested_reference rq) (payments w) = Some q \<and>
                     p_status q \<noteq> Completed)")
    case False
    then have "snd (verify_payment ev rq w) = w"
      by (intro verify_payment_early) (cases "find (\<lambda>p. Some (reference p) = requested_reference rq) (payments w)", auto)
    with f0 show ?thesis by simp
  next
    case True
    then obtain q where t: "truthy (requested_reference rq)"
      and q: "find (\<lambda>p. Some (reference p) = requested_reference rq) (payments w) = Some q"
      and nc: "p_status q \<noteq> Completed" by blast
    have "q \<in> set (payments w)" using find_in_set[OF q] by simp
    moreover have "q \<noteq> p" using nc c by auto
    ultimately have ne: "p_pk q \<noteq> p_pk p"
      using distinct_map_eq[OF d _ p] by blast
    show ?thesis
      using verify_payment_reaches_gateway[OF t q nc, of ev]
        verify_try_keeps[OF ne, of ev] f0
      by simp
  qed
  show "find (\<lambda>r. p_pk r = p_pk p) (payments (snd (initiate_payment ev irq w))) = Some p"
  proof (cases "snd (initiate_payment ev irq w) = w")
    case True
    with f0 show ?thesis by simp
  next
    case False
    then obtain vd b p0 w1 where vd: "ir_validated irq = Inr vd"
      and b: "find (\<lambda>b. booking_id b = vd_booking_id vd \<and> b_user b = ir_user irq) (bookings w) = Some b"
      and nc: "\<not> (case booking_payment b w of None \<Rightarrow> False
                   | Some p0 \<Rightarrow> p_status p0 = Completed \<or> p_status p0 = Processing)"
      and cr: "payment_create (now ev) (uuid_payment_id ev) b (new_reference (uuid_hex ev))
                 (total_price b) w = Inr (p0, w1)"
      by (rule initiate_payment_early)
    have ne: "p_pk p0 \<noteq> p_pk p"
      using payment_create_new(1)[OF cr] next_pk_fresh[of "p_pk p" "map p_pk (payments w)"] p
      by auto
    have f1: "find (\<lambda>r. p_pk r = p_pk p) (payments w1) = Some p"
      using payment_create_new(7)[OF cr] ne f0
      by (simp add: write_payments_def find_append_miss)
    define w2 where "w2 = w1\<lparr>gateway_calls := gateway_calls w1 @
                                  [Post (CHAPA_BASE_URL (conf ev) @ ''/transaction/initialize'')
                                     (chapa_payload ev vd b (new_reference (uuid_hex ev)))]\<rparr>"
    obtain res p1 w3 where tr: "initiate_try ev (new_reference (uuid_hex ev)) p0 w2 = (res, p1, w3)"
      by (metis prod_cases3)
    have f2: "find (\<lambda>r. p_pk r = p_pk p) (payments w2) = Some p" using f1 by (simp add: w2_def)
    from initiate_try_keeps[OF ne tr] f2
    have f3: "find (\<lambda>r. p_pk r = p_pk p) (payments w3) = Some p" and ne1: "p_pk p1 \<noteq> p_pk p"
      using ne by simp_all
    have "initiate_payment ev irq w =
            (case (res, p1, w3) of
               (Inr resp, p1, w3) \<Rightarrow> (Inr resp, w3)
             | (Inl RequestException, p1, w3) \<Rightarrow>
                 (let msg = ''Failed to connect to payment gateway: '' @ str_exn ev RequestException
                  in case mark_as_failed (now ev) (Some msg) p1 w3 of
                       (Some e', p2, w4) \<Rightarrow> (Inl e', w4)
                     | (None, p2, w4) \<Rightarrow> (Inr (500, Status ''error'' (Some msg) No_data), w4))
             | (Inl e, p1, w3) \<Rightarrow>
                 (case mark_as_failed (now ev) (Some (''Unexpected error: '' @ str_exn ev e)) p1 w3 of
                    (Some e', p2, w4) \<Rightarrow> (Inl e', w4)
                  | (None, p2, w4) \<Rightarrow>
                      (Inr (500, Status ''error'' (Some ''An unexpected error occurred'') No_data),
                       w4)))"
      using vd b nc cr tr by (simp add: initiate_payment_def Let_def w2_def)
    then show ?thesis
      using f3 mark_as_failed_keeps_snd[OF ne1, of "now ev" _ w3]
      by (simp add: Let_def failed_handler_world split: sum.splits exn.splits)
  qed
qed

theorem completed_payment_absorbing_witness:
  "find (\<lambda>r. p_pk r = 1)
     (payments (snd (verify_payment (ex_env (Responded 200 (ex_envelope ''success'' ''failed'')))
                       ex_verify (ex_world [ex_payment Completed])))) =
     Some (ex_payment Completed) \<and>
   find (\<lambda>r. p_pk r = 1)
     (payments (snd (initiate_payment (ex_env (Responded 200 (ex_envelope ''success'' ''failed'')))
                       ex_init (ex_world [ex_payment Completed])))) =
     Some (ex_payment Completed)"
  using completed_payment_absorbing[of "ex_world [ex_payment Completed]" "ex_payment Completed"
          "ex_env (Responded 200 (ex_envelope ''success'' ''failed''))" ex_verify ex_init]
  by (simp add: ex_world_def ex_payment_def ex_booking_def db_ok_def)

text \<open>
  Claim C6 as stated fails for \<open>failed\<close> (and likewise \<open>cancelled\<close>): \<open>verify_payment\<close> guards
  \<open>completed\<close> only. At this input the Payment is \<open>failed\<close>, the gateway reports the
  transaction as still pending, and the Payment becomes \<open>processing\<close>.
\<close>

theorem failed_payment_reverified:
  "map p_status (payments (ex_world [ex_payment Failed])) = [Failed] \<and>
   map p_status (payments (snd (verify_payment
       (ex_env (Responded 200 (ex_envelope ''success'' ''pending''))) ex_verify
       (ex_world [ex_payment Failed])))) = [Processing]"
  by (simp add: ex_defs run_defs)

section \<open>A transaction still pending at the gateway\<close>

text \<open>
  Claim C8. The tables satisfy their constraints, the reference names a Payment that is not
  \<open>completed\<close>, and the gateway answers 200 with envelope status \<open>success\<close> and a
  transaction status that is neither \<open>success\<close> nor \<open>failed\<close> (or none). Then
  \<open>verify_payment\<close> answers 200 with the tag \<open>processing\<close>, the Payment row has status
  \<open>processing\<close> with the gateway's body stored, every other Payment row and the whole
  Booking table are as before, and nothing is queued.
\<close>

theorem verify_pending_sets_processing:
  assumes db: "db_ok w"
    and t: "truthy (requested_reference rq)"
    and q: "find (\<lambda>p. Some (reference p) = requested_reference rq) (payments w) = Some p"
    and nc: "p_status p \<noteq> Completed"
    and gw: "gateway ev = Responded 200 rd" "e_status rd = Val ''success''"
    and ts: "transaction_status rd = Inr ts" "ts \<noteq> Some ''success''" "ts \<noteq> Some ''failed''"
  shows "fst (verify_payment ev rq w) =
           (200, Status ''processing'' (Some ''Payment is still being processed'')
                   (Payment_repr (serializer ev (snd (verify_payment ev rq w))
                      (p\<lparr>p_status := Processing, raw_response := Some rd,
                          p_updated_at := now ev\<rparr>)))) \<and>
         payments (snd (verify_payment ev rq w)) =
           map (\<lambda>r. if r = p then p\<lparr>p_status := Processing, raw_response := Some rd,
                                     p_updated_at := now ev\<rparr> else r) (payments w) \<and>
         bookings (snd (verify_payment ev rq w)) = bookings w \<and>
         queue (snd (verify_payment ev rq w)) = queue w"
proof -
  define w1 where "w1 = w\<lparr>gateway_calls := gateway_calls w @
                     [Get (CHAPA_BASE_URL (conf ev) @ ''/transaction/verify/'' @ reference p)]\<rparr>"
  have db1: "db_ok w1" using db by (simp add: db_ok_def w1_def)
  have p1: "p \<in> set (payments w1)" using find_in_set[OF q] by (simp add: w1_def)
  have sv: "payment_save (now ev) (p\<lparr>p_status := Processing, raw_response := Some rd\<rparr>) w1 =
            Inr (p\<lparr>p_status := Processing, raw_response := Some rd, p_updated_at := now ev\<rparr>,
                 write_payments
                   (map (\<lambda>r. if r = p then p\<lparr>p_status := Processing, raw_response := Some rd,
                                            p_updated_at := now ev\<rparr> else r) (payments w1)) w1)"
    using payment_save_stored[OF db1 p1, of "p\<lparr>p_status := Processing, raw_response := Some rd\<rparr>" "now ev"]
    by simp
  obtain d where d: "transaction_data rd = Inr d" "jget (d_status d) = ts"
    using ts(1) by (auto simp: transaction_status_def split: sum.splits)
  have "verify_try ev p w1 =
          (Inr (200, Status ''processing'' (Some ''Payment is still being processed'')
                  (Payment_repr (serializer ev
                     (write_payments
                        (map (\<lambda>r. if r = p then p\<lparr>p_status := Processing, raw_response := Some rd,
                                                 p_updated_at := now ev\<rparr> else r) (payments w1)) w1)
                     (p\<lparr>p_status := Processing, raw_response := Some rd,
                        p_updated_at := now ev\<rparr>)))),
           write_payments
             (map (\<lambda>r. if r = p then p\<lparr>p_status := Processing, raw_response := Some rd,
                                      p_updated_at := now ev\<rparr> else r) (payments w1)) w1)"
    using gw d ts(2,3) sv by (simp add: verify_try_def)
  then show ?thesis
    using t q nc by (simp add: verify_payment_def Let_def w1_def[symmetric])
       (simp add: w1_def write_payments_def)
qed

theorem verify_pending_sets_processing_witness:
  "payments (snd (verify_payment (ex_env (Responded 200 (ex_envelope ''success'' ''pending'')))
                    ex_verify (ex_world [ex_payment Pending]))) =
     [(ex_payment Pending)\<lparr>p_status := Processing,
                            raw_response := Some (ex_envelope ''success'' ''pending''),
                            p_updated_at := 5\<rparr>] \<and>
   bookings (snd (verify_payment (ex_env (Responded 200 (ex_envelope ''success'' ''pending'')))
                    ex_verify (ex_world [ex_payment Pending]))) = [ex_booking]"
  using verify_pending_sets_processing[of "ex_world [ex_payment Pending]" ex_verify
          "ex_payment Pending" "ex_env (Responded 200 (ex_envelope ''success'' ''pending''))"
          "ex_envelope ''success'' ''pending''" "Some ''pending''"]
  by (simp add: ex_defs db_ok_def truthy_def requested_reference_def transaction_status_def
        transaction_data_def jget_def)

end
